theory Spec2Isabelle
  imports Complex_Main "HOL-Library.Log_Nat"
begin

section \<open>JavaScript numbers\<close>

text \<open>
  A JavaScript Number is an IEEE 754 binary64 value. The finite ones are carried as the
  rational they denote, next to the two infinities and NaN. Every arithmetic operation
  rounds its exact result to the nearest binary64 value, ties to even (\<open>round64\<close>),
  and overflows to an infinity. The sign of zero is not carried: the program never divides
  by a value that can be zero (each divisor is a non-zero constant or is guarded by
  \<open>> 0\<close>), and \<open>0\<close> and \<open>-0\<close> are equal and both falsy.
\<close>

datatype jsnum = Fin rat | PInf | NInf | NaN

definition pow2 :: "int \<Rightarrow> rat" where
  "pow2 e = (if 0 \<le> e then 2 ^ nat e else 1 / 2 ^ nat (- e))"

text \<open>The exponent \<open>e\<close> with \<open>2^e \<le> q < 2^(e+1)\<close>, for \<open>q > 0\<close>.\<close>

definition flog2 :: "rat \<Rightarrow> int" where
  "flog2 q = (if 1 \<le> q then bitlen \<lfloor>q\<rfloor> - 1
     else (let t = 1 / q; k = bitlen \<lfloor>t\<rfloor> - 1 in if t = 2 ^ nat k then - k else - k - 1))"

text \<open>Rounding to the nearest integer, ties to the even one.\<close>

definition rne :: "rat \<Rightarrow> int" where
  "rne m = (let f = \<lfloor>m\<rfloor>; d = m - of_int f in
     if d < 1 / 2 then f else if 1 / 2 < d then f + 1 else if even f then f else f + 1)"

text \<open>
  The binary64 value of an exact result: 53 significant bits, the exponent not below
  \<open>-1022\<close> (subnormals), and an infinity from \<open>2^1024\<close> on.
\<close>

definition round64 :: "rat \<Rightarrow> jsnum" where
  "round64 q = (if q = 0 then Fin 0 else
     let a = \<bar>q\<bar>; e = max (flog2 a) (- 1022); u = pow2 (e - 52);
         r = of_int (rne (a / u)) * u
     in if pow2 1024 \<le> r then (if 0 < q then PInf else NInf)
        else Fin (if 0 < q then r else - r))"

text \<open>The finite numbers that are binary64 values: rounding leaves them as they are.\<close>

definition is_double :: "rat \<Rightarrow> bool" where
  "is_double x = (round64 x = Fin x)"

definition inf_signed :: "rat \<Rightarrow> jsnum" where
  "inf_signed a = (if a = 0 then NaN else if 0 < a then PInf else NInf)"

fun jneg :: "jsnum \<Rightarrow> jsnum" where
  "jneg (Fin a) = Fin (- a)"
| "jneg PInf = NInf"
| "jneg NInf = PInf"
| "jneg NaN = NaN"

fun jadd :: "jsnum \<Rightarrow> jsnum \<Rightarrow> jsnum" where
  "jadd (Fin a) (Fin b) = round64 (a + b)"
| "jadd NaN _ = NaN"
| "jadd _ NaN = NaN"
| "jadd PInf NInf = NaN"
| "jadd NInf PInf = NaN"
| "jadd PInf _ = PInf"
| "jadd _ PInf = PInf"
| "jadd NInf _ = NInf"
| "jadd _ NInf = NInf"

definition jsub :: "jsnum \<Rightarrow> jsnum \<Rightarrow> jsnum" where
  "jsub a b = jadd a (jneg b)"

fun jmul :: "jsnum \<Rightarrow> jsnum \<Rightarrow> jsnum" where
  "jmul (Fin a) (Fin b) = round64 (a * b)"
| "jmul NaN _ = NaN"
| "jmul _ NaN = NaN"
| "jmul (Fin a) PInf = inf_signed a"
| "jmul (Fin a) NInf = inf_signed (- a)"
| "jmul PInf (Fin b) = inf_signed b"
| "jmul NInf (Fin b) = inf_signed (- b)"
| "jmul PInf PInf = PInf"
| "jmul NInf NInf = PInf"
| "jmul PInf NInf = NInf"
| "jmul NInf PInf = NInf"

fun jdiv :: "jsnum \<Rightarrow> jsnum \<Rightarrow> jsnum" where
  "jdiv (Fin a) (Fin b) = (if b = 0 then inf_signed a else round64 (a / b))"
| "jdiv NaN _ = NaN"
| "jdiv _ NaN = NaN"
| "jdiv (Fin a) PInf = Fin 0"
| "jdiv (Fin a) NInf = Fin 0"
| "jdiv PInf (Fin b) = (if 0 \<le> b then PInf else NInf)"
| "jdiv NInf (Fin b) = (if 0 \<le> b then NInf else PInf)"
| "jdiv _ _ = NaN"

text \<open>\<open>a > b\<close>, \<open>a >= b\<close>, \<open>a <= b\<close>: false as soon as one side is NaN.\<close>

fun jgt :: "jsnum \<Rightarrow> jsnum \<Rightarrow> bool" where
  "jgt (Fin a) (Fin b) = (b < a)"
| "jgt NaN _ = False"
| "jgt _ NaN = False"
| "jgt PInf PInf = False"
| "jgt PInf _ = True"
| "jgt _ PInf = False"
| "jgt NInf _ = False"
| "jgt _ NInf = True"

definition jge :: "jsnum \<Rightarrow> jsnum \<Rightarrow> bool" where
  "jge a b = (a \<noteq> NaN \<and> b \<noteq> NaN \<and> (a = b \<or> jgt a b))"

definition jle :: "jsnum \<Rightarrow> jsnum \<Rightarrow> bool" where
  "jle a b = jge b a"

text \<open>Truthiness of a Number and \<open>a || b\<close> on Numbers: \<open>0\<close> and NaN are falsy.\<close>

definition jtruthy :: "jsnum \<Rightarrow> bool" where
  "jtruthy n = (n \<noteq> Fin 0 \<and> n \<noteq> NaN)"

definition jor :: "jsnum \<Rightarrow> jsnum \<Rightarrow> jsnum" where
  "jor a b = (if jtruthy a then a else b)"

text \<open>\<open>Math.floor\<close>, \<open>Math.max\<close>, \<open>Math.min\<close>, \<open>isNaN\<close>.\<close>

fun Math_floor :: "jsnum \<Rightarrow> jsnum" where
  "Math_floor (Fin a) = Fin (of_int \<lfloor>a\<rfloor>)"
| "Math_floor n = n"

definition Math_max :: "jsnum \<Rightarrow> jsnum \<Rightarrow> jsnum" where
  "Math_max a b = (if a = NaN \<or> b = NaN then NaN else if jgt b a then b else a)"

definition Math_min :: "jsnum \<Rightarrow> jsnum \<Rightarrow> jsnum" where
  "Math_min a b = (if a = NaN \<or> b = NaN then NaN else if jgt a b then b else a)"

definition isNaN :: "jsnum \<Rightarrow> bool" where
  "isNaN n = (n = NaN)"


text \<open>
  The Number value of a decimal literal of the source: \<open>5.8\<close> is \<open>num 58 10\<close>,
  \<open>0.75\<close> is \<open>num 75 100\<close>.
\<close>

definition num :: "int \<Rightarrow> int \<Rightarrow> jsnum" where
  "num a b = round64 (of_int a / of_int b)"

section \<open>Strings and parsing\<close>

text \<open>
  A JavaScript string is a list of UTF-16 code units. The pound sign is the code unit 163,
  the comma 44, the minus sign 45, the full stop 46.
\<close>

type_synonym jstring = "nat list"

definition asc :: "string \<Rightarrow> jstring" where
  "asc s = map of_char s"

text \<open>White space and line terminators: what \<open>\s\<close> matches and what parsing skips.\<close>

definition isWhiteSpace :: "nat \<Rightarrow> bool" where
  "isWhiteSpace c = (c \<in> {9, 10, 11, 12, 13, 32, 160, 5760, 8232, 8233, 8239, 8287, 12288, 65279}
     \<or> (8192 \<le> c \<and> c \<le> 8202))"

definition isDigit :: "nat \<Rightarrow> bool" where
  "isDigit c = (48 \<le> c \<and> c \<le> 57)"

definition digitsValue :: "nat list \<Rightarrow> int" where
  "digitsValue ds = foldl (\<lambda>a c. 10 * a + int (c - 48)) 0 ds"

definition pow10 :: "int \<Rightarrow> rat" where
  "pow10 e = (if 0 \<le> e then 10 ^ nat e else 1 / 10 ^ nat (- e))"

text \<open>An optional sign: whether it is a minus, and the rest.\<close>

definition strSign :: "jstring \<Rightarrow> bool \<times> jstring" where
  "strSign s = (case s of [] \<Rightarrow> (False, s)
     | c # r \<Rightarrow> if c = 45 then (True, r) else if c = 43 then (False, r) else (False, s))"

text \<open>The value of an exponent part \<open>e\<close>, \<open>E\<close> with signed digits, 0 when there is none.\<close>

definition exponentPart :: "jstring \<Rightarrow> int" where
  "exponentPart s = (case s of [] \<Rightarrow> 0
     | c # r \<Rightarrow> if c = 101 \<or> c = 69 then
         (let (neg, t) = strSign r; ds = takeWhile isDigit t in
          if ds = [] then 0 else if neg then - digitsValue ds else digitsValue ds)
       else 0)"

text \<open>
  \<open>parseFloat\<close> on a string: leading white space is skipped, then the longest prefix that
  is a decimal literal (sign, \<open>Infinity\<close>, or digits with an optional fraction and
  exponent) gives the Number; NaN when there is no such prefix.
\<close>

definition parseFloat_str :: "jstring \<Rightarrow> jsnum" where
  "parseFloat_str s = (let (neg, t) = strSign (dropWhile isWhiteSpace s) in
     if take 8 t = asc ''Infinity'' then (if neg then NInf else PInf)
     else
       let ip = takeWhile isDigit t; r1 = dropWhile isDigit t;
           fp = (case r1 of [] \<Rightarrow> [] | c # r \<Rightarrow> if c = 46 then takeWhile isDigit r else []);
           r2 = (case r1 of [] \<Rightarrow> [] | c # r \<Rightarrow> if c = 46 then dropWhile isDigit r else r1)
       in if ip = [] \<and> fp = [] then NaN
          else
            let m = of_int (digitsValue (ip @ fp)) * pow10 (exponentPart r2 - int (length fp))
            in round64 (if neg then - m else m))"

section \<open>Values and the field mapping\<close>

datatype jsval = JUndefined | JNull | JBool bool | JNum jsnum | JStr jstring

fun truthy :: "jsval \<Rightarrow> bool" where
  "truthy JUndefined = False"
| "truthy JNull = False"
| "truthy (JBool b) = b"
| "truthy (JNum n) = jtruthy n"
| "truthy (JStr s) = (s \<noteq> [])"

text \<open>
  The result of converting a value to a string. The string of a Number is not spelled out
  digit by digit: by the language standard it is the shortest decimal that reads back as
  the same Number, and it holds digits, a sign, a full stop, \<open>e\<close> or the words
  \<open>NaN\<close> and \<open>Infinity\<close> only. It is kept as \<open>NumeralOf n\<close>.
\<close>

datatype jsstr = Chars jstring | NumeralOf jsnum

fun ToString :: "jsval \<Rightarrow> jsstr" where
  "ToString (JStr s) = Chars s"
| "ToString (JNum n) = NumeralOf n"
| "ToString JUndefined = Chars (asc ''undefined'')"
| "ToString JNull = Chars (asc ''null'')"
| "ToString (JBool b) = Chars (asc (if b then ''true'' else ''false''))"

fun parseFloat :: "jsstr \<Rightarrow> jsnum" where
  "parseFloat (Chars s) = parseFloat_str s"
| "parseFloat (NumeralOf n) = n"

text \<open>\<open>.replace(/[\<pounds>,\s]/g, '')\<close>: the numeral of a Number has none of these.\<close>

definition isStripped :: "nat \<Rightarrow> bool" where
  "isStripped c = (c = 163 \<or> c = 44 \<or> isWhiteSpace c)"

fun replace_currency :: "jsstr \<Rightarrow> jsstr" where
  "replace_currency (Chars s) = Chars (filter (\<lambda>c. \<not> isStripped c) s)"
| "replace_currency (NumeralOf n) = NumeralOf n"

text \<open>The input of a calculator: a flat mapping; reading an absent field gives undefined.\<close>

type_synonym fields = "string \<rightharpoonup> jsval"

definition field :: "fields \<Rightarrow> string \<Rightarrow> jsval" where
  "field d k = (case d k of None \<Rightarrow> JUndefined | Some v \<Rightarrow> v)"

section \<open>The calculators (calculator-logic.js)\<close>

definition parseCurrency :: "jsval \<Rightarrow> jsnum" where
  "parseCurrency v = (if \<not> truthy v then Fin 0
     else let cleaned = replace_currency (ToString v) in jor (parseFloat cleaned) (Fin 0))"

text \<open>A result is the object the calculator returns: metric names with their Numbers.\<close>

type_synonym result = "(string \<times> jsnum) list"

definition calculateStandardBTL :: "fields \<Rightarrow> result" where
  "calculateStandardBTL d = (
     let purchasePrice = parseCurrency (field d ''purchase_price'');
         depositPercent = jor (parseFloat (ToString (field d ''deposit_percent''))) (Fin 20);
         monthlyRent = parseCurrency (field d ''monthly_rent'');
         mortgageRate = jor (parseFloat (ToString (field d ''mortgage_rate''))) (num 58 10);
         depositAmount = jmul purchasePrice (jdiv depositPercent (Fin 100));
         annualRent = jmul monthlyRent (Fin 12);
         rentalYield = (if jgt purchasePrice (Fin 0)
                        then jmul (jdiv annualRent purchasePrice) (Fin 100) else Fin 0);
         stampDuty = parseCurrency (field d ''stamp_duty'');
         surveyCost = parseCurrency (field d ''survey_cost'');
         legalFees = parseCurrency (field d ''legal_fees'');
         loanSetup = parseCurrency (field d ''loan_setup'');
         totalPurchaseCosts = jadd (jadd (jadd stampDuty surveyCost) legalFees) loanSetup;
         totalInvestment = jadd depositAmount totalPurchaseCosts;
         mortgageAmount = jsub purchasePrice depositAmount;
         annualMortgageInterest = jmul mortgageAmount (jdiv mortgageRate (Fin 100));
         councilTax = parseCurrency (field d ''council_tax'');
         repairs = parseCurrency (field d ''repairs_maintenance'');
         utilities = parseCurrency (field d ''utilities'');
         water = parseCurrency (field d ''water'');
         broadband = parseCurrency (field d ''broadband_tv'');
         insurance = parseCurrency (field d ''insurance'');
         totalAnnualExpenses = jadd (jadd (jadd (jadd (jadd (jadd annualMortgageInterest
             councilTax) repairs) utilities) water) broadband) insurance;
         annualProfit = jsub annualRent totalAnnualExpenses;
         monthlyProfit = jdiv annualProfit (Fin 12);
         roi = (if jgt totalInvestment (Fin 0)
                then jmul (jdiv annualProfit totalInvestment) (Fin 100) else Fin 0)
     in [(''purchasePrice'', purchasePrice), (''depositAmount'', depositAmount),
         (''mortgageAmount'', mortgageAmount), (''totalInvestment'', totalInvestment),
         (''annualRent'', annualRent), (''monthlyRent'', monthlyRent),
         (''rentalYield'', rentalYield), (''totalAnnualExpenses'', totalAnnualExpenses),
         (''annualProfit'', annualProfit), (''monthlyProfit'', monthlyProfit),
         (''roi'', roi)])"


definition calculateBRR :: "fields \<Rightarrow> result" where
  "calculateBRR d = (
     let purchasePrice = parseCurrency (field d ''purchase_price'');
         refurbCost = parseCurrency (field d ''refurb_cost'');
         afterRefurbValue = parseCurrency (field d ''after_refurb_value'');
         depositPercent = jor (parseFloat (ToString (field d ''deposit_percent''))) (Fin 20);
         mortgageRate = jor (parseFloat (ToString (field d ''mortgage_rate''))) (num 58 10);
         refinanceLTV = jor (parseFloat (ToString (field d ''refinance_ltv''))) (Fin 75);
         monthlyRent = parseCurrency (field d ''monthly_rent'');
         depositAmount = jmul purchasePrice (jdiv depositPercent (Fin 100));
         initialMortgage = jsub purchasePrice depositAmount;
         totalInitialInvestment = jadd depositAmount refurbCost;
         refinanceAmount = jmul afterRefurbValue (jdiv refinanceLTV (Fin 100));
         moneyBack = jsub refinanceAmount initialMortgage;
         netInvestment = jsub totalInitialInvestment moneyBack;
         annualRent = jmul monthlyRent (Fin 12);
         rentalYield = (if jgt afterRefurbValue (Fin 0)
                        then jmul (jdiv annualRent afterRefurbValue) (Fin 100) else Fin 0);
         annualMortgageInterest = jmul refinanceAmount (jdiv mortgageRate (Fin 100));
         councilTax = parseCurrency (field d ''council_tax'');
         repairs = parseCurrency (field d ''repairs_maintenance'');
         insurance = parseCurrency (field d ''insurance'');
         totalAnnualExpenses = jadd (jadd (jadd annualMortgageInterest councilTax) repairs) insurance;
         annualProfit = jsub annualRent totalAnnualExpenses;
         monthlyProfit = jdiv annualProfit (Fin 12);
         roi = (if jgt netInvestment (Fin 0)
                then jmul (jdiv annualProfit netInvestment) (Fin 100) else Fin 0)
     in [(''purchasePrice'', purchasePrice), (''refurbCost'', refurbCost),
         (''afterRefurbValue'', afterRefurbValue), (''depositAmount'', depositAmount),
         (''totalInitialInvestment'', totalInitialInvestment),
         (''refinanceAmount'', refinanceAmount), (''moneyBack'', moneyBack),
         (''netInvestment'', netInvestment), (''annualRent'', annualRent),
         (''monthlyRent'', monthlyRent), (''rentalYield'', rentalYield),
         (''totalAnnualExpenses'', totalAnnualExpenses), (''annualProfit'', annualProfit),
         (''monthlyProfit'', monthlyProfit), (''roi'', roi)])"

definition calculateFlip :: "fields \<Rightarrow> result" where
  "calculateFlip d = (
     let purchasePrice = parseCurrency (field d ''purchase_price'');
         refurbCost = parseCurrency (field d ''refurb_cost'');
         salePrice = parseCurrency (field d ''sale_price'');
         holdingPeriod = jor (parseFloat (ToString (field d ''holding_period''))) (Fin 6);
         stampDuty = parseCurrency (field d ''stamp_duty'');
         surveyCost = parseCurrency (field d ''survey_cost'');
         legalFeesPurchase = parseCurrency (field d ''legal_fees'');
         legalFeesSale = parseCurrency (field d ''legal_fees_sale'');
         estateAgentFees = parseCurrency (field d ''estate_agent_fees'');
         financeCost = parseCurrency (field d ''finance_cost'');
         totalPurchaseCosts = jadd (jadd stampDuty surveyCost) legalFeesPurchase;
         totalSaleCosts = jadd legalFeesSale estateAgentFees;
         totalInvestment = jadd (jadd (jadd purchasePrice refurbCost) totalPurchaseCosts) financeCost;
         grossProfit = jsub (jsub salePrice totalInvestment) totalSaleCosts;
         netProfit = grossProfit;
         roi = (if jgt totalInvestment (Fin 0)
                then jmul (jdiv netProfit totalInvestment) (Fin 100) else Fin 0);
         monthlyROI = (if jgt holdingPeriod (Fin 0) then jdiv roi holdingPeriod else Fin 0)
     in [(''purchasePrice'', purchasePrice), (''refurbCost'', refurbCost),
         (''salePrice'', salePrice), (''totalInvestment'', totalInvestment),
         (''grossProfit'', grossProfit), (''netProfit'', netProfit), (''roi'', roi),
         (''monthlyROI'', monthlyROI), (''holdingPeriod'', holdingPeriod)])"

definition calculateHolidayLet :: "fields \<Rightarrow> result" where
  "calculateHolidayLet d = (
     let purchasePrice = parseCurrency (field d ''purchase_price'');
         depositPercent = jor (parseFloat (ToString (field d ''deposit_percent''))) (Fin 20);
         mortgageRate = jor (parseFloat (ToString (field d ''mortgage_rate''))) (num 58 10);
         weeklyRent = parseCurrency (field d ''weekly_rent'');
         occupancyRate = jor (parseFloat (ToString (field d ''occupancy_rate''))) (Fin 50);
         managementFeePercent = jor (parseFloat (ToString (field d ''management_fee''))) (Fin 20);
         cleaningFee = parseCurrency (field d ''cleaning_fee'');
         depositAmount = jmul purchasePrice (jdiv depositPercent (Fin 100));
         mortgageAmount = jsub purchasePrice depositAmount;
         weeksPerYear = Fin 52;
         occupiedWeeks = jmul weeksPerYear (jdiv occupancyRate (Fin 100));
         annualRent = jmul weeklyRent occupiedWeeks;
         managementFee = jmul annualRent (jdiv managementFeePercent (Fin 100));
         totalCleaningFees = jmul cleaningFee occupiedWeeks;
         annualMortgageInterest = jmul mortgageAmount (jdiv mortgageRate (Fin 100));
         councilTax = parseCurrency (field d ''council_tax'');
         utilities = parseCurrency (field d ''utilities'');
         insurance = parseCurrency (field d ''insurance'');
         totalAnnualExpenses = jadd (jadd (jadd (jadd (jadd annualMortgageInterest managementFee)
             totalCleaningFees) councilTax) utilities) insurance;
         annualProfit = jsub annualRent totalAnnualExpenses;
         monthlyProfit = jdiv annualProfit (Fin 12);
         rentalYield = (if jgt purchasePrice (Fin 0)
                        then jmul (jdiv annualRent purchasePrice) (Fin 100) else Fin 0);
         totalInvestment = depositAmount;
         roi = (if jgt totalInvestment (Fin 0)
                then jmul (jdiv annualProfit totalInvestment) (Fin 100) else Fin 0)
     in [(''purchasePrice'', purchasePrice), (''depositAmount'', depositAmount),
         (''mortgageAmount'', mortgageAmount), (''annualRent'', annualRent),
         (''weeklyRent'', weeklyRent), (''occupancyRate'', occupancyRate),
         (''occupiedWeeks'', occupiedWeeks), (''totalAnnualExpenses'', totalAnnualExpenses),
         (''annualProfit'', annualProfit), (''monthlyProfit'', monthlyProfit),
         (''rentalYield'', rentalYield), (''roi'', roi)])"

definition calculateRentToHMO :: "fields \<Rightarrow> result" where
  "calculateRentToHMO d = (
     let monthlyRentPaid = parseCurrency (field d ''monthly_rent_paid'');
         numberOfRooms = jor (parseFloat (ToString (field d ''number_of_rooms''))) (Fin 1);
         rentPerRoom = parseCurrency (field d ''rent_per_room'');
         occupancyRate = jor (parseFloat (ToString (field d ''occupancy_rate''))) (Fin 80);
         annualRentPaid = jmul monthlyRentPaid (Fin 12);
         occupiedRooms = Math_floor (jmul numberOfRooms (jdiv occupancyRate (Fin 100)));
         monthlyIncome = jmul rentPerRoom occupiedRooms;
         annualIncome = jmul monthlyIncome (Fin 12);
         councilTax = parseCurrency (field d ''council_tax'');
         utilities = parseCurrency (field d ''utilities'');
         insurance = parseCurrency (field d ''insurance'');
         managementFee = parseCurrency (field d ''management_fee'');
         totalAnnualExpenses = jadd (jadd (jadd (jadd annualRentPaid councilTax) utilities)
             insurance) managementFee;
         annualProfit = jsub annualIncome totalAnnualExpenses;
         monthlyProfit = jdiv annualProfit (Fin 12);
         roi = (if jgt annualRentPaid (Fin 0)
                then jmul (jdiv annualProfit annualRentPaid) (Fin 100) else Fin 0)
     in [(''monthlyRentPaid'', monthlyRentPaid), (''annualRentPaid'', annualRentPaid),
         (''numberOfRooms'', numberOfRooms), (''rentPerRoom'', rentPerRoom),
         (''occupiedRooms'', occupiedRooms), (''monthlyIncome'', monthlyIncome),
         (''annualIncome'', annualIncome), (''totalAnnualExpenses'', totalAnnualExpenses),
         (''annualProfit'', annualProfit), (''monthlyProfit'', monthlyProfit),
         (''roi'', roi)])"

definition calculateRentToServiced :: "fields \<Rightarrow> result" where
  "calculateRentToServiced d = (
     let monthlyRentPaid = parseCurrency (field d ''monthly_rent_paid'');
         dailyRate = parseCurrency (field d ''daily_rate'');
         occupancyRate = jor (parseFloat (ToString (field d ''occupancy_rate''))) (Fin 60);
         cleaningFee = parseCurrency (field d ''cleaning_fee'');
         managementFeePercent = jor (parseFloat (ToString (field d ''management_fee''))) (Fin 20);
         annualRentPaid = jmul monthlyRentPaid (Fin 12);
         daysPerYear = Fin 365;
         occupiedDays = jmul daysPerYear (jdiv occupancyRate (Fin 100));
         annualIncome = jmul dailyRate occupiedDays;
         managementFee = jmul annualIncome (jdiv managementFeePercent (Fin 100));
         totalCleaningFees = jmul cleaningFee occupiedDays;
         councilTax = parseCurrency (field d ''council_tax'');
         utilities = parseCurrency (field d ''utilities'');
         insurance = parseCurrency (field d ''insurance'');
         totalAnnualExpenses = jadd (jadd (jadd (jadd (jadd annualRentPaid managementFee)
             totalCleaningFees) councilTax) utilities) insurance;
         annualProfit = jsub annualIncome totalAnnualExpenses;
         monthlyProfit = jdiv annualProfit (Fin 12);
         roi = (if jgt annualRentPaid (Fin 0)
                then jmul (jdiv annualProfit annualRentPaid) (Fin 100) else Fin 0)
     in [(''monthlyRentPaid'', monthlyRentPaid), (''annualRentPaid'', annualRentPaid),
         (''dailyRate'', dailyRate), (''occupancyRate'', occupancyRate),
         (''occupiedDays'', occupiedDays), (''annualIncome'', annualIncome),
         (''totalAnnualExpenses'', totalAnnualExpenses), (''annualProfit'', annualProfit),
         (''monthlyProfit'', monthlyProfit), (''roi'', roi)])"




text \<open>
  \<open>formatCurrency\<close>: a pound sign and \<open>toLocaleString('en-GB')\<close> with no fraction
  digits. The locale formatting rounds the magnitude to a whole number, halves away from
  zero, and writes its decimal digits in groups of three separated by commas.
\<close>

fun digits10 :: "nat \<Rightarrow> jstring" where
  "digits10 n = (if n < 10 then [48 + n] else digits10 (n div 10) @ [48 + n mod 10])"

declare digits10.simps [simp del]

fun group3 :: "jstring \<Rightarrow> jstring" where
  "group3 (a # b # c # d # r) = a # b # c # 44 # group3 (d # r)"
| "group3 ds = ds"

definition grouped :: "jstring \<Rightarrow> jstring" where
  "grouped ds = rev (group3 (rev ds))"

definition toLocaleString :: "jsnum \<Rightarrow> jstring" where
  "toLocaleString v = (case v of
       Fin x \<Rightarrow> (if x < 0 then [45] else []) @ grouped (digits10 (nat \<lfloor>\<bar>x\<bar> + 1 / 2\<rfloor>))
     | PInf \<Rightarrow> [8734]
     | NInf \<Rightarrow> [45, 8734]
     | NaN \<Rightarrow> asc ''NaN'')"

definition formatCurrency :: "jsnum \<Rightarrow> jstring" where
  "formatCurrency v = 163 # toLocaleString v"

text \<open>
  The value that a percentage-like field contributes, in the words of the amended C3:
  the parsed Number when it is a Number other than zero, the default of the field when
  it is NaN (the field is absent or not numeric) or zero.
\<close>

definition effective :: "jsval \<Rightarrow> jsnum \<Rightarrow> jsnum" where
  "effective v dflt = (let p = parseFloat (ToString v) in
     if p = NaN \<or> p = Fin 0 then dflt else p)"

text \<open>
  The return on investment in the words of the amended C4: the profit over the basis as
  a percentage when the basis is greater than zero, and zero otherwise.
\<close>

definition roi_of :: "jsnum \<Rightarrow> jsnum \<Rightarrow> jsnum" where
  "roi_of profit basis =
     (if jgt basis (Fin 0) then jmul (jdiv profit basis) (Fin 100) else Fin 0)"

section \<open>The helper of the PDF generator (pdf-generator.js)\<close>

text \<open>
  The generator has its own \<open>parseCurrency\<close>, which calls the method \<open>value.toString()\<close>
  where the calculator module calls \<open>String(value)\<close>. The method call raises a TypeError
  on undefined and null.
\<close>

datatype error = TypeError | InvalidOutputPath

fun toString_method :: "jsval \<Rightarrow> error + jsstr" where
  "toString_method JUndefined = Inl TypeError"
| "toString_method JNull = Inl TypeError"
| "toString_method v = Inr (ToString v)"

definition parseCurrency_pdf :: "jsval \<Rightarrow> error + jsnum" where
  "parseCurrency_pdf v = (if \<not> truthy v then Inr (Fin 0)
     else case toString_method v of
         Inl e \<Rightarrow> Inl e
       | Inr s \<Rightarrow> Inr (jor (parseFloat (replace_currency s)) (Fin 0)))"

section \<open>The energy-rating chart (createEPCChart)\<close>

definition INCH :: jsnum where
  "INCH = Fin 72"

definition A4_WIDTH :: jsnum where
  "A4_WIDTH = num 59528 100"

definition A4_HEIGHT :: jsnum where
  "A4_HEIGHT = num 84189 100"

definition MARGIN :: jsnum where
  "MARGIN = jmul (num 75 100) INCH"

definition HEADER_TOP_OFFSET :: jsnum where
  "HEADER_TOP_OFFSET = jmul (num 45 100) INCH"

record band =
  grade :: string
  min_b :: jsnum
  max_b :: jsnum
  color :: string
  range_b :: string

definition epcBands :: "band list" where
  "epcBands =
    [\<lparr>grade = ''A'', min_b = Fin 92, max_b = Fin 100, color = ''#008450'', range_b = ''92+''\<rparr>,
     \<lparr>grade = ''B'', min_b = Fin 81, max_b = Fin 91, color = ''#22c55e'', range_b = ''81-91''\<rparr>,
     \<lparr>grade = ''C'', min_b = Fin 69, max_b = Fin 80, color = ''#84cc16'', range_b = ''69-80''\<rparr>,
     \<lparr>grade = ''D'', min_b = Fin 55, max_b = Fin 68, color = ''#eab308'', range_b = ''55-68''\<rparr>,
     \<lparr>grade = ''E'', min_b = Fin 39, max_b = Fin 54, color = ''#f59e0b'', range_b = ''39-54''\<rparr>,
     \<lparr>grade = ''F'', min_b = Fin 21, max_b = Fin 38, color = ''#ef4444'', range_b = ''21-38''\<rparr>,
     \<lparr>grade = ''G'', min_b = Fin 1, max_b = Fin 20, color = ''#dc2626'', range_b = ''1-20''\<rparr>]"

definition chartWidth :: jsnum where
  "chartWidth = jmul (num 46 10) INCH"

definition barHeight :: jsnum where
  "barHeight = jmul (num 18 100) INCH"

definition barSpacing :: jsnum where
  "barSpacing = jmul (num 9 100) INCH"

definition startX :: "jsnum \<Rightarrow> jsnum" where
  "startX x = jsub x (jmul (num 15 100) INCH)"

definition colGap :: jsnum where
  "colGap = jmul (num 20 100) INCH"

definition currentColX :: "jsnum \<Rightarrow> jsnum" where
  "currentColX x = jadd (jadd (startX x) chartWidth) colGap"

definition colWidth :: jsnum where
  "colWidth = jmul (num 9 10) INCH"

definition potentialColX :: "jsnum \<Rightarrow> jsnum" where
  "potentialColX x = jadd (jadd (currentColX x) colWidth) colGap"

definition maxSteps :: nat where
  "maxSteps = length epcBands"

text \<open>The top of the bar of index \<open>i\<close> (0 is A, 6 is G), in a chart whose top is \<open>y\<close>.\<close>

definition yPos :: "jsnum \<Rightarrow> nat \<Rightarrow> jsnum" where
  "yPos y i = jadd y (jmul (Fin (of_nat i)) (jadd barHeight barSpacing))"

definition letterPadding :: jsnum where
  "letterPadding = jmul (num 8 100) INCH"

definition maxLetterX :: "jsnum \<Rightarrow> jsnum" where
  "maxLetterX x = jsub (currentColX x) (jmul (num 32 100) INCH)"

definition maxBarWidthForLetter :: "jsnum \<Rightarrow> jsnum" where
  "maxBarWidthForLetter x =
     Math_max (Fin 0) (jsub (jsub (maxLetterX x) (startX x)) letterPadding)"

text \<open>The width of the rectangle drawn for the bar of index \<open>i\<close>, in a chart placed at \<open>x\<close>.\<close>

definition barWidth :: "jsnum \<Rightarrow> nat \<Rightarrow> jsnum" where
  "barWidth x i = (
     let proportion = jdiv (jadd (Fin (of_nat i)) (Fin 1)) (Fin (of_nat maxSteps));
         width = jmul chartWidth proportion
     in if jgt width (maxBarWidthForLetter x) then maxBarWidthForLetter x else width)"

text \<open>
  \<open>parseInt\<close> with no radix: white space and a sign are skipped, a prefix \<open>0x\<close> selects
  base 16, and the longest run of digits is read; NaN when there is none.
\<close>

definition hexDigit :: "nat \<Rightarrow> int option" where
  "hexDigit c = (if 48 \<le> c \<and> c \<le> 57 then Some (int (c - 48))
     else if 97 \<le> c \<and> c \<le> 102 then Some (int (c - 87))
     else if 65 \<le> c \<and> c \<le> 70 then Some (int (c - 55)) else None)"

definition hexValue :: "nat list \<Rightarrow> int" where
  "hexValue ds = foldl (\<lambda>a c. 16 * a + (case hexDigit c of Some v \<Rightarrow> v | None \<Rightarrow> 0)) 0 ds"

definition parseInt_str :: "jstring \<Rightarrow> jsnum" where
  "parseInt_str s = (let (neg, t) = strSign (dropWhile isWhiteSpace s) in
     if take 2 t = [48, 120] \<or> take 2 t = [48, 88] then
       (let ds = takeWhile (\<lambda>c. hexDigit c \<noteq> None) (drop 2 t) in
        if ds = [] then NaN
        else round64 (of_int (if neg then - hexValue ds else hexValue ds)))
     else
       (let ds = takeWhile isDigit t in
        if ds = [] then NaN
        else round64 (of_int (if neg then - digitsValue ds else digitsValue ds))))"

text \<open>
  \<open>parseInt\<close> of a Number reads its numeral. A Number of magnitude from \<open>1e-6\<close> up to,
  not including, \<open>1e21\<close> is printed in positional notation, and the digits before the full
  stop are its integer part. Any other finite Number but zero is printed as
  \<open>d.ddde\<plusminus>n\<close> with the fewest digits that read back as the same Number, and only
  the first digit \<open>d\<close> is read: it is the first digit of the exact value, unless the next
  one-digit decimal already reads back as the Number.
\<close>

definition floorLog10 :: "rat \<Rightarrow> int" where
  "floorLog10 a = (if 1 \<le> a then int (length (digits10 (nat \<lfloor>a\<rfloor>))) - 1
     else (let t = 1 / a; k = int (length (digits10 (nat \<lfloor>t\<rfloor>))) - 1 in
           if t = pow10 k then - k else - k - 1))"

definition firstDigit :: "rat \<Rightarrow> int" where
  "firstDigit a = (
     let p = floorLog10 a; l = \<lfloor>a / pow10 p\<rfloor> in
     if round64 (of_int (l + 1) * pow10 p) = Fin a then (if l = 9 then 1 else l + 1) else l)"

definition parseInt_numeral :: "jsnum \<Rightarrow> jsnum" where
  "parseInt_numeral n = (case n of
       Fin q \<Rightarrow>
         if q = 0 \<or> (1 / 10 ^ 6 \<le> \<bar>q\<bar> \<and> \<bar>q\<bar> < 10 ^ 21)
         then Fin (of_int (if q < 0 then - \<lfloor>- q\<rfloor> else \<lfloor>q\<rfloor>))
         else Fin (of_int (if q < 0 then - firstDigit (- q) else firstDigit q))
     | _ \<Rightarrow> NaN)"

fun parseInt :: "jsstr \<Rightarrow> jsnum" where
  "parseInt (Chars s) = parseInt_str s"
| "parseInt (NumeralOf n) = parseInt_numeral n"

text \<open>\<open>a || b || c\<close> on values: the first truthy one, else the last.\<close>

definition vor :: "jsval \<Rightarrow> jsval \<Rightarrow> jsval" where
  "vor a b = (if truthy a then a else b)"

definition currentScore :: "fields \<Rightarrow> jsnum" where
  "currentScore d = (
     let s = parseInt (ToString (vor (vor (field d ''current_rating'') (field d ''epc_rating''))
               (JStr (asc ''84''))))
     in if isNaN s then Fin 84 else s)"

definition potentialScore :: "fields \<Rightarrow> jsnum" where
  "potentialScore d = (
     let s = parseInt (ToString (vor (field d ''potential_rating'') (JStr (asc ''72''))))
     in if isNaN s then Fin 72 else s)"

text \<open>The loop of \<open>bandCenterY\<close>: the index of the first band that holds the score.\<close>

fun bandIndex :: "jsnum \<Rightarrow> nat \<Rightarrow> band list \<Rightarrow> nat option" where
  "bandIndex score i [] = None"
| "bandIndex score i (b # bs) =
     (if jge score (min_b b) \<and> jle score (max_b b) then Some i else bandIndex score (i + 1) bs)"

definition bandCenterY :: "jsnum \<Rightarrow> jsnum \<Rightarrow> jsnum" where
  "bandCenterY y score = (case bandIndex score 0 epcBands of
       Some i \<Rightarrow> jadd (jadd y (jmul (Fin (of_nat i)) (jadd barHeight barSpacing)))
                   (jdiv barHeight (Fin 2))
     | None \<Rightarrow> jadd (jadd y (jmul (Fin (of_nat (length epcBands - 1))) (jadd barHeight barSpacing)))
                 (jdiv barHeight (Fin 2)))"

definition letterFor :: "jsnum \<Rightarrow> string" where
  "letterFor score = (case find (\<lambda>b. jge score (min_b b) \<and> jle score (max_b b)) epcBands of
       Some b \<Rightarrow> grade b
     | None \<Rightarrow> ''G'')"

text \<open>
  A value badge as \<open>drawValueBadge\<close> draws it: the body is the rectangle from \<open>(x0, y0)\<close>
  of width \<open>badgeWidth\<close> and height \<open>badgeHeight\<close>, with \<open>y0 = yCenter - badgeHeight / 2\<close>,
  and the tip points at \<open>y0 + badgeHeight / 2\<close>.
\<close>

record badge =
  x0 :: jsnum
  y0 :: jsnum
  badgeWidth :: jsnum
  badgeHeight :: jsnum
  badgeValue :: jsnum
  badgeLetter :: string
  badgeColor :: string

definition drawValueBadge ::
  "jsnum \<Rightarrow> jsnum \<Rightarrow> jsnum \<Rightarrow> string \<Rightarrow> string \<Rightarrow> jsnum \<Rightarrow> badge" where
  "drawValueBadge xLeft yCenter v letter col maxWidth = (
     let bw = Math_min (jmul (num 8 10) INCH)
                (if jtruthy maxWidth then maxWidth else jmul (num 8 10) INCH);
         bh = jmul (num 24 100) INCH
     in \<lparr>x0 = xLeft, y0 = jsub yCenter (jdiv bh (Fin 2)), badgeWidth = bw, badgeHeight = bh,
         badgeValue = v, badgeLetter = letter, badgeColor = col\<rparr>)"

definition badgeMaxWidth :: jsnum where
  "badgeMaxWidth = jsub colWidth (jmul (num 14 100) INCH)"

definition currentBadge :: "fields \<Rightarrow> jsnum \<Rightarrow> jsnum \<Rightarrow> badge" where
  "currentBadge d x y = drawValueBadge (jadd (currentColX x) (jmul (num 4 100) INCH))
     (bandCenterY y (currentScore d)) (currentScore d) (letterFor (currentScore d))
     ''#ffd86b'' badgeMaxWidth"

definition potentialBadge :: "fields \<Rightarrow> jsnum \<Rightarrow> jsnum \<Rightarrow> badge" where
  "potentialBadge d x y = drawValueBadge (jadd (potentialColX x) (jmul (num 4 100) INCH))
     (bandCenterY y (potentialScore d)) (potentialScore d) (letterFor (potentialScore d))
     ''#c9f29b'' badgeMaxWidth"

text \<open>Where createOtherKeyInformationPage places the chart.\<close>

definition chartX :: jsnum where
  "chartX = jdiv (jsub A4_WIDTH (jmul (num 58 10) INCH)) (Fin 2)"


section \<open>The document composer (generatePDF)\<close>

text \<open>
  The rendering backend is a capability: the model records which drawing operations reach
  which page. A document is the list of finished pages and the page being drawn;
  \<open>doc.addPage()\<close> finishes the current page and opens an empty one. The pages that
  contain no call of \<open>addPage\<close> (cover, key information, other key information, city map)
  are one operation each, and so is the body of one calculator section. An image is
  recorded with its path (none for the placeholder), its top and its fit mode. Page
  breaks that the backend may insert by itself when text overflows are not part of the
  model.
\<close>

datatype fit = Contain | Cover

datatype draw =
    Header
  | Title string
  | AddImage "string option" jsnum fit
  | Section jsval
  | CoverPage
  | KeyInformation
  | OtherKeyInformation
  | CityMap

record doc =
  finished :: "draw list list"
  current :: "draw list"

definition pages :: "doc \<Rightarrow> draw list list" where
  "pages d = finished d @ [current d]"

definition newDocument :: doc where
  "newDocument = \<lparr>finished = [], current = []\<rparr>"

definition addPage :: "doc \<Rightarrow> doc" where
  "addPage d = \<lparr>finished = finished d @ [current d], current = []\<rparr>"

definition drawOp :: "draw \<Rightarrow> doc \<Rightarrow> doc" where
  "drawOp x d = d\<lparr>current := current d @ [x]\<rparr>"

text \<open>
  The fields of \<open>data\<close> that decide the page sequence. \<open>selected_calculators\<close> may be an
  array or any single value.
\<close>

datatype selection = SelValue jsval | SelArray "jsval list"

record report_data =
  selected_calculators :: selection
  calculator_type :: jsval

fun sel_truthy :: "selection \<Rightarrow> bool" where
  "sel_truthy (SelValue v) = truthy v"
| "sel_truthy (SelArray xs) = True"

text \<open>\<open>s.length === 0\<close>: a Number or a boolean has no length.\<close>

fun sel_length_is_0 :: "selection \<Rightarrow> bool" where
  "sel_length_is_0 (SelArray xs) = (xs = [])"
| "sel_length_is_0 (SelValue (JStr s)) = (s = [])"
| "sel_length_is_0 (SelValue v) = False"

fun split :: "nat \<Rightarrow> jstring \<Rightarrow> jstring list" where
  "split sep [] = [[]]"
| "split sep (c # cs) =
     (if c = sep then [] # split sep cs
      else (case split sep cs of [] \<Rightarrow> [[c]] | w # ws \<Rightarrow> (c # w) # ws))"

definition trim :: "jstring \<Rightarrow> jstring" where
  "trim s = rev (dropWhile isWhiteSpace (rev (dropWhile isWhiteSpace s)))"

definition standard_btl :: jsval where
  "standard_btl = JStr (asc ''standard-btl'')"

definition selectedCalculators :: "report_data \<Rightarrow> jsval list" where
  "selectedCalculators data = (
     let s0 = (if sel_truthy (selected_calculators data) then selected_calculators data
               else if truthy (calculator_type data) then SelArray [calculator_type data]
               else SelArray [standard_btl]);
         s1 = (if \<not> sel_truthy s0 \<or> sel_length_is_0 s0 then SelArray [standard_btl] else s0);
         s2 = (case s1 of
                 SelValue (JStr s) \<Rightarrow>
                   SelArray (map JStr (filter (\<lambda>w. w \<noteq> []) (map trim (split 44 s))))
               | _ \<Rightarrow> s1)
     in case s2 of SelArray xs \<Rightarrow> xs | SelValue v \<Rightarrow> [v])"

text \<open>The \<open>forEach\<close> of createInvestmentPage, with its index.\<close>

fun investmentSections :: "jsval list \<Rightarrow> nat \<Rightarrow> doc \<Rightarrow> doc" where
  "investmentSections [] index d = d"
| "investmentSections (calculatorType # rest) index d =
     investmentSections rest (index + 1)
       (drawOp (Section calculatorType) (drawOp Header (if 0 < index then addPage d else d)))"

definition createInvestmentPage :: "report_data \<Rightarrow> doc \<Rightarrow> doc" where
  "createInvestmentPage data d = investmentSections (selectedCalculators data) 0 d"

text \<open>The image paths, by role; a role that is undefined or null is \<open>None\<close>.\<close>

record images =
  cover :: "string list option"
  property :: "string list option"
  floor_plans :: "string list option"
  directions :: "string list option"
  city :: "string list option"

definition estimatedLogoHeight :: jsnum where
  "estimatedLogoHeight = jmul (jmul (num 14 10) INCH) (num 4 10)"

definition contentY :: jsnum where
  "contentY = jadd (jadd (jadd (jadd HEADER_TOP_OFFSET estimatedLogoHeight) (Fin 12)) (Fin 9)) (Fin 20)"

fun floorPlanLoop :: "string list \<Rightarrow> string list \<Rightarrow> doc \<Rightarrow> doc" where
  "floorPlanLoop floorPlans [] d = d"
| "floorPlanLoop floorPlans (floorPlanPath # rest) d = (
     let d1 = drawOp (AddImage (Some floorPlanPath) (jadd contentY (Fin 30)) Contain)
                (drawOp (Title ''Floor Plans'') (drawOp Header d))
     in floorPlanLoop floorPlans rest
          (if floorPlanPath \<noteq> last floorPlans then addPage d1 else d1))"

definition floorPlanSection :: "images \<Rightarrow> doc \<Rightarrow> doc" where
  "floorPlanSection imgs d = (
     let floorPlans = (case floor_plans imgs of Some xs \<Rightarrow> xs | None \<Rightarrow> [])
     in if 0 < length floorPlans then floorPlanLoop floorPlans floorPlans d
        else drawOp (AddImage None (jadd contentY (Fin 30)) Contain)
               (drawOp (Title ''Floor Plans'') (drawOp Header d)))"

definition galleryHeight :: jsnum where
  "galleryHeight = jmul (num 28 10) INCH"

definition gallerySpacing :: jsnum where
  "gallerySpacing = Fin 60"

text \<open>
  The gallery loop. \<open>titleHeight\<close> is what the backend's \<open>heightOfString\<close> measures for
  the title.
\<close>

fun galleryLoop :: "jsnum \<Rightarrow> string list \<Rightarrow> jsnum \<Rightarrow> doc \<Rightarrow> doc" where
  "galleryLoop titleHeight [] currentY d = d"
| "galleryLoop titleHeight (imgPath # rest) currentY d = (
     let over = jgt (jadd (jadd currentY galleryHeight) gallerySpacing) (jsub A4_HEIGHT MARGIN);
         d1 = (if over then drawOp (Title ''Property Images'') (drawOp Header (addPage d)) else d);
         y1 = (if over then jadd contentY (jadd titleHeight (Fin 28)) else currentY)
     in galleryLoop titleHeight rest (jadd y1 (jadd galleryHeight gallerySpacing))
          (drawOp (AddImage (Some imgPath) y1 Cover) d1))"

text \<open>\<open>images.property || images.cover || []\<close>: an array is truthy even when empty.\<close>

definition galleryImages :: "images \<Rightarrow> string list" where
  "galleryImages imgs = (case property imgs of
       Some xs \<Rightarrow> xs
     | None \<Rightarrow> (case cover imgs of Some ys \<Rightarrow> ys | None \<Rightarrow> []))"

definition gallerySection :: "jsnum \<Rightarrow> images \<Rightarrow> doc \<Rightarrow> doc" where
  "gallerySection titleHeight imgs d = (
     if 0 < length (galleryImages imgs)
     then galleryLoop titleHeight (galleryImages imgs)
            (jadd contentY (jadd titleHeight (Fin 28)))
            (drawOp (Title ''Property Images'') (drawOp Header d))
     else d)"

text \<open>
  generatePDF: the output path is checked first (falsy, not a string, or blank); then the
  pages are drawn in their fixed order.
\<close>

definition validOutputPath :: "jsval \<Rightarrow> bool" where
  "validOutputPath outputPath = (case outputPath of
       JStr s \<Rightarrow> s \<noteq> [] \<and> trim s \<noteq> []
     | _ \<Rightarrow> False)"

definition generatePDF :: "report_data \<Rightarrow> images \<Rightarrow> jsval \<Rightarrow> jsnum \<Rightarrow> error + doc" where
  "generatePDF data imgs outputPath titleHeight = (
     if \<not> validOutputPath outputPath then Inl InvalidOutputPath
     else
       let d1 = addPage (drawOp CoverPage newDocument);
           d2 = addPage (createInvestmentPage data d1);
           d3 = addPage (drawOp KeyInformation d2);
           d4 = addPage (drawOp OtherKeyInformation d3);
           d5 = addPage (floorPlanSection imgs d4);
           d6 = addPage (gallerySection titleHeight imgs d5)
       in Inr (drawOp CityMap d6))"

text \<open>
  What the gallery draws: its title and its images, which are the ones fitted with
  \<open>cover\<close>. \<open>galleryPaths\<close> lists the paths of the gallery images of a document in
  the order in which they are drawn.
\<close>

fun isGallery :: "draw \<Rightarrow> bool" where
  "isGallery (Title t) = (t = ''Property Images'')"
| "isGallery (AddImage p y f) = (f = Cover)"
| "isGallery x = False"

fun galleryPath :: "draw \<Rightarrow> string option list" where
  "galleryPath (AddImage p y Cover) = [p]"
| "galleryPath x = []"

definition galleryPaths :: "doc \<Rightarrow> string option list" where
  "galleryPaths d = concat (map galleryPath (concat (pages d)))"

section \<open>Example inputs\<close>

text \<open>The input of the standard buy-to-let example of the specification.\<close>

definition btl_example :: fields where
  "btl_example = map_of
     [(''purchase_price'', JStr (163 # asc ''200,000'')), (''deposit_percent'', JNum (Fin 25)),
      (''monthly_rent'', JStr (163 # asc ''1,200'')), (''mortgage_rate'', JNum (Fin 5)),
      (''council_tax'', JNum (Fin 150)), (''repairs_maintenance'', JNum (Fin 50)),
      (''utilities'', JNum (Fin 40)), (''water'', JNum (Fin 20)),
      (''broadband_tv'', JNum (Fin 30)), (''insurance'', JNum (Fin 25))]"

text \<open>A purchase price with a deposit of zero percent, as a Number and as a string.\<close>

definition zero_deposit_example :: fields where
  "zero_deposit_example = map_of
     [(''purchase_price'', JNum (Fin 100000)), (''deposit_percent'', JNum (Fin 0))]"

definition zero_deposit_string_example :: fields where
  "zero_deposit_string_example = map_of
     [(''purchase_price'', JNum (Fin 100000)), (''deposit_percent'', JStr (asc ''0''))]"

text \<open>A purchase price given as the string \<open>Infinity\<close>, which parseFloat reads.\<close>

definition infinite_price_example :: fields where
  "infinite_price_example = map_of [(''purchase_price'', JStr (asc ''Infinity''))]"








text \<open>An energy rating that is not a number.\<close>

definition bad_rating_example :: fields where
  "bad_rating_example = map_of
     [(''current_rating'', JStr (asc ''n/a'')), (''potential_rating'', JStr (asc ''unknown''))]"

text \<open>
  Ratings supplied as Numbers, and ratings supplied as strings with \<open>epc_rating\<close> in
  place of \<open>current_rating\<close>.
\<close>

definition rated_example :: fields where
  "rated_example = map_of
     [(''current_rating'', JNum (Fin 20)), (''potential_rating'', JNum (Fin 85))]"

definition rated_string_example :: fields where
  "rated_string_example = map_of
     [(''epc_rating'', JStr (asc ''39'')), (''potential_rating'', JStr (asc ''92''))]"

text \<open>
  A report with two calculators selected, no floor plan, an empty \<open>property\<close> list and
  a cover image; and the same report with the \<open>property\<close> list absent.
\<close>

definition two_calculators :: report_data where
  "two_calculators = \<lparr>selected_calculators = SelArray [JStr (asc ''brr''), JStr (asc ''flip'')],
     calculator_type = JUndefined\<rparr>"

definition empty_property :: images where
  "empty_property = \<lparr>cover = Some [''cover.jpg''], property = Some [], floor_plans = Some [],
     directions = Some [], city = Some []\<rparr>"

definition absent_property :: images where
  "absent_property = \<lparr>cover = Some [''cover.jpg''], property = None, floor_plans = Some [],
     directions = Some [], city = Some []\<rparr>"

definition out_pdf :: jsval where
  "out_pdf = JStr (asc ''report.pdf'')"

section \<open>Facts about rounding to binary64\<close>

lemma rne_of_int: "rne (of_int k) = k"
  by (simp add: rne_def)

lemma pow2_pos: "0 < pow2 e"
  by (simp add: pow2_def)

lemma pow2_nonpos: "e \<le> 0 \<Longrightarrow> pow2 e = 1 / 2 ^ nat (- e)"
  by (cases "e = 0") (simp_all add: pow2_def)

lemma flog2_bounds:
  assumes "1 \<le> q"
  shows "0 \<le> flog2 q" and "2 ^ nat (flog2 q) \<le> q" and "q < 2 ^ nat (flog2 q + 1)"
proof -
  let ?x = "\<lfloor>q\<rfloor>"
  have x: "0 < ?x" using assms by simp
  have e: "flog2 q = bitlen ?x - 1" using assms by (simp add: flog2_def)
  have b: "2 ^ nat (bitlen ?x - 1) \<le> ?x" "?x < 2 ^ nat (bitlen ?x)"
    using bitlen_bounds [OF x] by simp_all
  have "bitlen ?x \<noteq> 0" using x by (simp add: bitlen_eq_zero_iff)
  then show "0 \<le> flog2 q" using bitlen_nonneg [of ?x] e by linarith
  have "(of_int (2 ^ nat (bitlen ?x - 1)) :: rat) \<le> of_int ?x"
    using b(1) of_int_le_iff by blast
  also have "\<dots> \<le> q" by simp
  finally show "2 ^ nat (flog2 q) \<le> q" by (simp add: e)
  have "?x + 1 \<le> 2 ^ nat (bitlen ?x)" using b(2) by simp
  then have "(of_int (?x + 1) :: rat) \<le> of_int (2 ^ nat (bitlen ?x))"
    using of_int_le_iff by blast
  moreover have "q < of_int (?x + 1)" by linarith
  ultimately show "q < 2 ^ nat (flog2 q + 1)" by (simp add: e)
qed

lemma round64_of_int_pos:
  assumes "0 < n" and "n < 2 ^ 53"
  shows "round64 (of_int n) = Fin (of_int n)"
proof -
  let ?q = "of_int n :: rat"
  let ?e = "flog2 ?q"
  have q1: "1 \<le> ?q" using assms(1) by simp
  have e0: "0 \<le> ?e" using flog2_bounds(1) [OF q1] .
  have q53: "?q < 2 ^ 53"
    using assms(2) by (metis of_int_less_iff of_int_numeral of_int_power)
  have "(2::rat) ^ nat ?e \<le> ?q" using flog2_bounds(2) [OF q1] .
  then have "(2::rat) ^ nat ?e < 2 ^ 53" using q53 by (rule le_less_trans)
  then have "nat ?e < 53" by (rule power_less_imp_less_exp [rotated]) simp
  then have e52: "?e \<le> 52" by linarith
  have m: "max ?e (- 1022) = ?e" using e0 by simp
  have u: "pow2 (?e - 52) = 1 / 2 ^ nat (52 - ?e)"
    using pow2_nonpos [of "?e - 52"] e52 by simp
  have "?q / pow2 (?e - 52) = of_int (n * 2 ^ nat (52 - ?e))"
    by (simp add: u)
  then have r: "rne (?q / pow2 (?e - 52)) = n * 2 ^ nat (52 - ?e)"
    by (simp only: rne_of_int)
  have rback: "of_int (n * 2 ^ nat (52 - ?e)) * pow2 (?e - 52) = ?q"
    by (simp add: u)
  have small: "\<not> pow2 1024 \<le> ?q"
  proof -
    have "(2::rat) ^ 53 \<le> 2 ^ 1024" by (rule power_increasing) simp_all
    with q53 have "?q < 2 ^ 1024" by (rule less_le_trans)
    then show ?thesis unfolding pow2_def by (simp del: power_numeral)
  qed
  have a: "\<bar>?q\<bar> = ?q" using assms(1) by simp
  have rr: "of_int (rne (\<bar>?q\<bar> / pow2 (max (flog2 \<bar>?q\<bar>) (- 1022) - 52)))
      * pow2 (max (flog2 \<bar>?q\<bar>) (- 1022) - 52) = ?q"
    unfolding a m r by (rule rback)
  show ?thesis
    unfolding round64_def Let_def rr using assms(1) small by simp
qed


lemma round64_of_int:
  assumes "\<bar>n\<bar> < 2 ^ 53"
  shows "round64 (of_int n) = Fin (of_int n)"
proof -
  consider "n = 0" | "0 < n" | "n < 0" by linarith
  then show ?thesis
  proof cases
    case 1
    then show ?thesis by (simp add: round64_def)
  next
    case 2
    then show ?thesis using assms round64_of_int_pos by simp
  next
    case 3
    then have p: "0 < - n" "- n < 2 ^ 53" using assms by simp_all
    have "round64 (of_int (- n)) = Fin (of_int (- n))"
      using round64_of_int_pos [OF p] .
    then show ?thesis using 3 by (simp add: round64_def Let_def split: if_splits)
  qed
qed

lemma round64_numeral:
  "(numeral k :: int) < 9007199254740992 \<Longrightarrow> round64 (numeral k) = Fin (numeral k)"
  "round64 0 = Fin 0" "round64 1 = Fin 1"
  using round64_of_int [of "numeral k"] round64_of_int [of 0] round64_of_int [of 1]
  by simp_all

lemma double_large_is_int:
  assumes "is_double x" and "2 ^ 52 \<le> x"
  shows "x = of_int \<lfloor>x\<rfloor>"
proof -
  let ?e = "flog2 x"
  have x1: "1 \<le> x"
  proof -
    have "(1::rat) \<le> 2 ^ 52" by simp
    then show ?thesis using assms(2) by (rule order_trans)
  qed
  have x0: "0 < x" "x \<noteq> 0" "\<bar>x\<bar> = x" using x1 by simp_all
  have "(2::rat) ^ 52 < 2 ^ nat (?e + 1)"
    using assms(2) flog2_bounds(3) [OF x1] by (rule le_less_trans)
  then have "52 < nat (?e + 1)" by (rule power_less_imp_less_exp [rotated]) simp
  then have e: "52 \<le> ?e" by linarith
  then have m: "max ?e (- 1022) = ?e" by simp
  have u: "pow2 (?e - 52) = of_int (2 ^ nat (?e - 52))"
    using e by (simp add: pow2_def)
  from assms(1) have "round64 x = Fin x" by (simp add: is_double_def)
  then have "x = of_int (rne (x / pow2 (?e - 52))) * pow2 (?e - 52)"
    unfolding round64_def Let_def x0(3) m using x0(1,2) by (simp split: if_splits)
  then have "x = of_int (rne (x / pow2 (?e - 52)) * 2 ^ nat (?e - 52))"
    unfolding u by simp
  then show ?thesis by (metis floor_of_int)
qed


lemma bitlen_numeral_simps:
  "bitlen (numeral Num.One) = 1"
  "bitlen (numeral (Num.Bit0 k)) = bitlen (numeral k) + 1"
  "bitlen (numeral (Num.Bit1 k)) = bitlen (numeral k) + 1"
  "bitlen 1 = 1"
proof -
  show "bitlen (numeral Num.One) = 1" by (subst compute_bitlen) simp
  show "bitlen (numeral (Num.Bit0 k)) = bitlen (numeral k) + 1"
    by (subst compute_bitlen) simp
  show "bitlen (numeral (Num.Bit1 k)) = bitlen (numeral k) + 1"
    by (subst compute_bitlen) simp
  show "bitlen 1 = 1" by (subst compute_bitlen) simp
qed

lemma floor_rat_numeral:
  "\<lfloor>numeral a / numeral b :: rat\<rfloor> = numeral a div numeral b"
  by (metis floor_divide_of_int_eq of_int_numeral)

lemmas round64_eval = round64_def flog2_def rne_def pow2_def Let_def bitlen_numeral_simps
  floor_rat_numeral

text \<open>The rules that evaluate the parsing functions on a given string.\<close>

lemmas parse_simps = parseCurrency_def parseFloat_str_def strSign_def exponentPart_def
  digitsValue_def pow10_def isDigit_def isWhiteSpace_def isStripped_def asc_def jor_def
  jtruthy_def field_def round64_numeral

text \<open>The rules that read a field of a result.\<close>

lemmas lookup_simps = map_of.simps fst_conv snd_conv list.inject char.inject simp_thms
  if_True if_False option.inject fun_upd_apply


section \<open>The standard buy-to-let example\<close>

text \<open>The roundings that the example goes through, one operation each.\<close>

lemma btl_example_ops:
  "jdiv (Fin 25) (Fin 100) = Fin (1 / 4)"
  "jmul (Fin 200000) (Fin (1 / 4)) = Fin 50000"
  "jmul (Fin 1200) (Fin 12) = Fin 14400"
  "jdiv (Fin 14400) (Fin 200000) = Fin (5188146770730811 / 72057594037927936)"
  "jmul (Fin (5188146770730811 / 72057594037927936)) (Fin 100)
     = Fin (2026619832316723 / 281474976710656)"
  "jadd (Fin 0) (Fin 0) = Fin 0"
  "jadd (Fin 50000) (Fin 0) = Fin 50000"
  "jadd (Fin 200000) (Fin (- 50000)) = Fin 150000"
  "jdiv (Fin 5) (Fin 100) = Fin (3602879701896397 / 72057594037927936)"
  "jmul (Fin 150000) (Fin (3602879701896397 / 72057594037927936)) = Fin 7500"
  "jadd (Fin 7500) (Fin 150) = Fin 7650"
  "jadd (Fin 7650) (Fin 50) = Fin 7700"
  "jadd (Fin 7700) (Fin 40) = Fin 7740"
  "jadd (Fin 7740) (Fin 20) = Fin 7760"
  "jadd (Fin 7760) (Fin 30) = Fin 7790"
  "jadd (Fin 7790) (Fin 25) = Fin 7815"
  "jadd (Fin 14400) (Fin (- 7815)) = Fin 6585"
  "jdiv (Fin 6585) (Fin 12) = Fin (2195 / 4)"
  "jdiv (Fin 6585) (Fin 50000) = Fin (4744992567397555 / 36028797018963968)"
  "jmul (Fin (4744992567397555 / 36028797018963968)) (Fin 100)
     = Fin (926756360819835 / 70368744177664)"
  by (simp_all add: round64_eval)

lemma btl_example_result:
  "calculateStandardBTL btl_example =
    [(''purchasePrice'', Fin 200000), (''depositAmount'', Fin 50000),
     (''mortgageAmount'', Fin 150000), (''totalInvestment'', Fin 50000),
     (''annualRent'', Fin 14400), (''monthlyRent'', Fin 1200),
     (''rentalYield'', Fin (2026619832316723 / 281474976710656)),
     (''totalAnnualExpenses'', Fin 7815), (''annualProfit'', Fin 6585),
     (''monthlyProfit'', Fin (2195 / 4)),
     (''roi'', Fin (926756360819835 / 70368744177664))]"
  by (simp add: calculateStandardBTL_def btl_example_def parse_simps jsub_def btl_example_ops
      Let_def del: jadd.simps(1) jmul.simps(1) jdiv.simps(1))

text \<open>
  The Numbers that the decimal numerals \<open>7.2\<close>, \<open>13.17\<close>, \<open>7.199999999999999\<close> and
  \<open>13.170000000000002\<close> denote.
\<close>

lemma btl_example_numerals:
  "num 72 10 = Fin (8106479329266893 / 1125899906842624)"
  "num 1317 100 = Fin (7414050886558679 / 562949953421312)"
  "num 7199999999999999 1000000000000000 = Fin (2026619832316723 / 281474976710656)"
  "num 13170000000000002 1000000000000000 = Fin (926756360819835 / 70368744177664)"
  by (simp_all add: num_def round64_eval)

text \<open>
  C1, as stated, fails: on the example input the calculator does not return
  \<open>rentalYield = 7.2\<close> and \<open>roi = 13.17\<close>. \<open>14400 / 200000\<close> is rounded before it is
  multiplied by 100, and the product is the Number just below \<open>7.2\<close>; in the same way
  \<open>6585 / 50000 * 100\<close> is a Number just above \<open>13.17\<close>.
\<close>

theorem standard_btl_example_counterexample:
  "\<not> (map_of (calculateStandardBTL btl_example) ''depositAmount'' = Some (Fin 50000)
      \<and> map_of (calculateStandardBTL btl_example) ''mortgageAmount'' = Some (Fin 150000)
      \<and> map_of (calculateStandardBTL btl_example) ''annualRent'' = Some (Fin 14400)
      \<and> map_of (calculateStandardBTL btl_example) ''rentalYield'' = Some (num 72 10)
      \<and> map_of (calculateStandardBTL btl_example) ''totalAnnualExpenses'' = Some (Fin 7815)
      \<and> map_of (calculateStandardBTL btl_example) ''annualProfit'' = Some (Fin 6585)
      \<and> map_of (calculateStandardBTL btl_example) ''roi'' = Some (num 1317 100))"
  by (simp add: btl_example_result btl_example_numerals)

text \<open>
  C1, amended: on the example input calculateStandardBTL returns \<open>depositAmount = 50000\<close>,
  \<open>mortgageAmount = 150000\<close>, \<open>annualRent = 14400\<close>, \<open>totalAnnualExpenses = 7815\<close> (the
  annual mortgage interest in it is \<open>150000 * (5 / 100) = 7500\<close>) and
  \<open>annualProfit = 6585\<close> exactly, and the Numbers \<open>rentalYield = 7.199999999999999\<close>
  and \<open>roi = 13.170000000000002\<close>, which differ from \<open>7.2\<close> and \<open>13.17\<close> and lie within
  \<open>2e-15\<close> of them.
\<close>

theorem standard_btl_example:
  "calculateStandardBTL btl_example =
    [(''purchasePrice'', Fin 200000), (''depositAmount'', Fin 50000),
     (''mortgageAmount'', Fin 150000), (''totalInvestment'', Fin 50000),
     (''annualRent'', Fin 14400), (''monthlyRent'', Fin 1200),
     (''rentalYield'', num 7199999999999999 1000000000000000),
     (''totalAnnualExpenses'', Fin 7815), (''annualProfit'', Fin 6585),
     (''monthlyProfit'', Fin (2195 / 4)),
     (''roi'', num 13170000000000002 1000000000000000)]
   \<and> jmul (Fin 150000) (jdiv (Fin 5) (Fin 100)) = Fin 7500
   \<and> num 7199999999999999 1000000000000000 = Fin (36 / 5 - 1 / 1407374883553280)
   \<and> num 13170000000000002 1000000000000000 = Fin (1317 / 100 + 3 / 1759218604441600)"
  by (simp add: btl_example_result btl_example_numerals btl_example_ops
      del: jadd.simps(1) jmul.simps(1) jdiv.simps(1))

section \<open>Formatting and parsing back\<close>

lemma digits10_nonempty: "digits10 n \<noteq> []"
  by (induction n rule: digits10.induct) (subst digits10.simps, simp)

lemma digits10_isDigit: "c \<in> set (digits10 n) \<Longrightarrow> isDigit c"
proof (induction n arbitrary: c rule: digits10.induct)
  case (1 n)
  show ?case
  proof (cases "n < 10")
    case True
    then show ?thesis using "1.prems" by (subst (asm) digits10.simps) (simp add: isDigit_def)
  next
    case False
    have "n mod 10 < 10" by simp
    then have "isDigit (48 + n mod 10)" by (simp add: isDigit_def)
    then show ?thesis
      using "1.prems" "1.IH" [OF False] False
      by (subst (asm) digits10.simps) auto
  qed
qed

lemma digitsValue_snoc: "digitsValue (ds @ [c]) = 10 * digitsValue ds + int (c - 48)"
  by (simp add: digitsValue_def)

lemma digitsValue_digits10: "digitsValue (digits10 n) = int n"
proof (induction n rule: digits10.induct)
  case (1 n)
  show ?case
  proof (cases "n < 10")
    case True
    then show ?thesis by (subst digits10.simps) (simp add: digitsValue_def)
  next
    case False
    have "10 * (n div 10) + n mod 10 = n" by simp
    then have a: "10 * int (n div 10) + int (n mod 10) = int n"
      by (metis of_nat_add of_nat_mult of_nat_numeral)
    show ?thesis
      using "1.IH" [OF False] False a
      by (subst digits10.simps) (simp add: digitsValue_snoc)
  qed
qed

lemma filter_group3:
  "\<not> P 44 \<Longrightarrow> filter P (group3 ds) = filter P ds"
  by (induction ds rule: group3.induct) simp_all

lemma digit_not_stripped: "isDigit c \<Longrightarrow> \<not> isStripped c"
  by (auto simp: isDigit_def isStripped_def isWhiteSpace_def)

lemma filter_grouped:
  assumes "\<And>c. c \<in> set ds \<Longrightarrow> isDigit c"
  shows "filter (\<lambda>c. \<not> isStripped c) (grouped ds) = ds"
proof -
  have keep: "\<And>c. c \<in> set ds \<Longrightarrow> \<not> isStripped c"
    using assms digit_not_stripped by blast
  have "filter (\<lambda>c. \<not> isStripped c) (grouped ds)
        = rev (filter (\<lambda>c. \<not> isStripped c) (group3 (rev ds)))"
    by (simp add: grouped_def rev_filter)
  also have "\<dots> = rev (filter (\<lambda>c. \<not> isStripped c) (rev ds))"
    by (subst filter_group3) (simp_all add: isStripped_def)
  also have "\<dots> = filter (\<lambda>c. \<not> isStripped c) ds"
    by (simp add: rev_filter)
  also have "\<dots> = ds" using keep by (simp add: filter_id_conv)
  finally show ?thesis .
qed

lemma parseFloat_str_digits:
  assumes "ds \<noteq> []" and "\<And>c. c \<in> set ds \<Longrightarrow> isDigit c"
  shows "parseFloat_str ds = round64 (of_int (digitsValue ds))"
proof -
  obtain c cs where ds: "ds = c # cs" using assms(1) by (cases ds) auto
  have c: "isDigit c" using assms(2) ds by simp
  then have nws: "\<not> isWhiteSpace c" and nsign: "c \<noteq> 45" "c \<noteq> 43" and ninf: "c \<noteq> 73"
    by (auto simp: isDigit_def isWhiteSpace_def)
  have d1: "dropWhile isWhiteSpace ds = ds" using nws ds by simp
  have d2: "strSign ds = (False, ds)" using nsign ds by (simp add: strSign_def)
  have d3: "take 8 ds \<noteq> asc ''Infinity''" using ninf ds by (simp add: asc_def)
  have d4: "takeWhile isDigit ds = ds" "dropWhile isDigit ds = []"
    using assms(2) by (simp_all add: takeWhile_eq_all_conv)
  show ?thesis
    unfolding parseFloat_str_def d1 d2
    using d3 assms(1) by (simp add: d4 exponentPart_def pow10_def)
qed

lemma round64_round_half:
  assumes "is_double x" and "0 \<le> x"
  shows "round64 (of_int \<lfloor>x + 1 / 2\<rfloor>) = Fin (of_int \<lfloor>x + 1 / 2\<rfloor>)"
proof (cases "x < 2 ^ 52")
  case True
  have "x + 1 / 2 < of_int (2 ^ 53)" using True by simp
  then have "\<lfloor>x + 1 / 2\<rfloor> < 2 ^ 53" by (simp only: floor_less_iff)
  moreover have "0 \<le> \<lfloor>x + 1 / 2\<rfloor>" using assms(2) by simp
  ultimately have "\<bar>\<lfloor>x + 1 / 2\<rfloor>\<bar> < 2 ^ 53" by simp
  then show ?thesis by (rule round64_of_int)
next
  case False
  then have big: "2 ^ 52 \<le> x" by simp
  obtain k where k: "x = of_int k" using double_large_is_int [OF assms(1) big] ..
  have "\<lfloor>(of_int k :: rat) + 1 / 2\<rfloor> = k" by (rule floor_unique) simp_all
  then have "(of_int \<lfloor>x + 1 / 2\<rfloor> :: rat) = x" unfolding k by simp
  then show ?thesis using assms(1) by (simp add: is_double_def)
qed

lemma formatCurrency_nonneg:
  "0 \<le> x \<Longrightarrow> formatCurrency (Fin x) = 163 # grouped (digits10 (nat \<lfloor>x + 1 / 2\<rfloor>))"
  by (simp add: formatCurrency_def toLocaleString_def)

text \<open>
  C8: for every non-negative finite Number \<open>x\<close>,
  \<open>parseCurrency(formatCurrency(x))\<close> is \<open>x\<close> rounded to the nearest whole unit
  (halves upwards): formatCurrency writes a pound sign and the grouped digits of the
  rounded value, parseCurrency strips the sign and the separators and reads the digits
  back, and the rounded value is itself a binary64 Number.
\<close>

theorem parse_format_round:
  assumes "is_double x" and "0 \<le> x"
  shows "parseCurrency (JStr (formatCurrency (Fin x))) = Fin (of_int \<lfloor>x + 1 / 2\<rfloor>)"
proof -
  let ?n = "nat \<lfloor>x + 1 / 2\<rfloor>"
  let ?ds = "digits10 ?n"
  have n: "int ?n = \<lfloor>x + 1 / 2\<rfloor>" using assms(2) by simp
  have strip: "filter (\<lambda>c. \<not> isStripped c) (163 # grouped ?ds) = ?ds"
    using filter_grouped [of ?ds] digits10_isDigit by (simp add: isStripped_def)
  have "parseFloat_str ?ds = round64 (of_int (digitsValue ?ds))"
    using parseFloat_str_digits [of ?ds] digits10_nonempty digits10_isDigit by blast
  also have "\<dots> = round64 (of_int \<lfloor>x + 1 / 2\<rfloor>)"
    by (simp only: digitsValue_digits10 n)
  also have "\<dots> = Fin (of_int \<lfloor>x + 1 / 2\<rfloor>)"
    using assms by (rule round64_round_half)
  finally have p: "parseFloat_str ?ds = Fin (of_int \<lfloor>x + 1 / 2\<rfloor>)" .
  have r: "replace_currency (ToString (JStr (163 # grouped ?ds))) = Chars ?ds"
    by (simp only: ToString.simps replace_currency.simps strip)
  have t: "truthy (JStr (163 # grouped ?ds))" by simp
  show ?thesis
    unfolding formatCurrency_nonneg [OF assms(2)] parseCurrency_def Let_def r
    using t by (auto simp: p jor_def jtruthy_def)
qed

text \<open>The round trip at \<open>x = 1234567.5\<close>, through the string \<open>\<pounds>1,234,568\<close>.\<close>

theorem parse_format_round_witness:
  "is_double (2469135 / 2) \<and> (0::rat) \<le> 2469135 / 2
   \<and> formatCurrency (Fin (2469135 / 2)) = 163 # asc ''1,234,568''
   \<and> parseCurrency (JStr (163 # asc ''1,234,568'')) = Fin 1234568"
proof -
  have d: "is_double (2469135 / 2)" by (simp add: is_double_def round64_eval)
  have p: "(0::rat) \<le> 2469135 / 2" by simp
  have f: "formatCurrency (Fin (2469135 / 2)) = 163 # asc ''1,234,568''"
    by (simp add: formatCurrency_def toLocaleString_def grouped_def digits10.simps asc_def floor_rat_numeral)
  show ?thesis using parse_format_round [OF d p] d f by simp
qed

section \<open>The two parseCurrency functions\<close>

text \<open>
  C9: the parseCurrency of the calculator module and the parseCurrency helper of the PDF
  generator return the same Number on every value (undefined, null, a boolean, a Number
  or a string): the helper's method call \<open>value.toString()\<close> is reached for truthy
  values only, where it cannot fail. Both return 0 on a falsy value and on a value that
  does not parse, and otherwise the Number parsed after stripping pound signs, commas
  and white space.
\<close>

theorem parseCurrency_agree:
  "parseCurrency_pdf v = Inr (parseCurrency v)
   \<and> (\<not> truthy v \<or> parseFloat (replace_currency (ToString v)) = NaN
        \<longrightarrow> parseCurrency v = Fin 0)
   \<and> (truthy v \<and> parseFloat (replace_currency (ToString v)) \<noteq> NaN
        \<longrightarrow> parseCurrency v = parseFloat (replace_currency (ToString v)))"
  by (cases v) (auto simp: parseCurrency_pdf_def parseCurrency_def jor_def jtruthy_def)

theorem parseCurrency_agree_witness:
  "\<not> truthy JUndefined \<and> parseCurrency JUndefined = Fin 0
   \<and> parseCurrency_pdf JUndefined = Inr (Fin 0)
   \<and> truthy (JStr (163 # asc ''1,200''))
   \<and> parseFloat (replace_currency (ToString (JStr (163 # asc ''1,200'')))) = Fin 1200
   \<and> parseCurrency (JStr (163 # asc ''1,200'')) = Fin 1200
   \<and> parseCurrency_pdf (JStr (163 # asc ''1,200'')) = Inr (Fin 1200)"
proof -
  have p: "parseFloat (replace_currency (ToString (JStr (163 # asc ''1,200'')))) = Fin 1200"
    by (simp add: parse_simps)
  show ?thesis
    using parseCurrency_agree [of JUndefined]
      parseCurrency_agree [of "JStr (163 # asc ''1,200'')"] p
    by simp
qed

section \<open>Defaults of the percentage-like fields\<close>

lemma jor_effective: "jor (parseFloat (ToString v)) dflt = effective v dflt"
  by (simp add: jor_def jtruthy_def effective_def)

lemma jor_effective_self: "jor (effective v dflt) dflt = effective v dflt"
  by (simp add: jor_def jtruthy_def effective_def Let_def)

lemma field_upd: "field (d(k \<mapsto> v)) k' = (if k' = k then v else field d k')"
  by (simp add: field_def)

lemmas effective_simps = field_upd jor_effective jor_effective_self

lemma standard_btl_effective:
  "calculateStandardBTL (d(''deposit_percent'' \<mapsto>
      JNum (effective (field d ''deposit_percent'') (Fin 20)))) = calculateStandardBTL d"
  "calculateStandardBTL (d(''mortgage_rate'' \<mapsto>
      JNum (effective (field d ''mortgage_rate'') (num 58 10)))) = calculateStandardBTL d"
  unfolding calculateStandardBTL_def
  by (simp_all only: effective_simps ToString.simps parseFloat.simps list.inject char.inject
      simp_thms if_True if_False)

lemma brr_effective:
  "calculateBRR (d(''deposit_percent'' \<mapsto>
      JNum (effective (field d ''deposit_percent'') (Fin 20)))) = calculateBRR d"
  "calculateBRR (d(''mortgage_rate'' \<mapsto>
      JNum (effective (field d ''mortgage_rate'') (num 58 10)))) = calculateBRR d"
  "calculateBRR (d(''refinance_ltv'' \<mapsto>
      JNum (effective (field d ''refinance_ltv'') (Fin 75)))) = calculateBRR d"
  unfolding calculateBRR_def
  by (simp_all only: effective_simps ToString.simps parseFloat.simps list.inject char.inject
      simp_thms if_True if_False)

lemma flip_effective:
  "calculateFlip (d(''holding_period'' \<mapsto>
      JNum (effective (field d ''holding_period'') (Fin 6)))) = calculateFlip d"
  unfolding calculateFlip_def
  by (simp_all only: effective_simps ToString.simps parseFloat.simps list.inject char.inject
      simp_thms if_True if_False)

lemma holiday_let_effective:
  "calculateHolidayLet (d(''deposit_percent'' \<mapsto>
      JNum (effective (field d ''deposit_percent'') (Fin 20)))) = calculateHolidayLet d"
  "calculateHolidayLet (d(''mortgage_rate'' \<mapsto>
      JNum (effective (field d ''mortgage_rate'') (num 58 10)))) = calculateHolidayLet d"
  "calculateHolidayLet (d(''occupancy_rate'' \<mapsto>
      JNum (effective (field d ''occupancy_rate'') (Fin 50)))) = calculateHolidayLet d"
  "calculateHolidayLet (d(''management_fee'' \<mapsto>
      JNum (effective (field d ''management_fee'') (Fin 20)))) = calculateHolidayLet d"
  unfolding calculateHolidayLet_def
  by (simp_all only: effective_simps ToString.simps parseFloat.simps list.inject char.inject
      simp_thms if_True if_False)

lemma rent_to_hmo_effective:
  "calculateRentToHMO (d(''number_of_rooms'' \<mapsto>
      JNum (effective (field d ''number_of_rooms'') (Fin 1)))) = calculateRentToHMO d"
  "calculateRentToHMO (d(''occupancy_rate'' \<mapsto>
      JNum (effective (field d ''occupancy_rate'') (Fin 80)))) = calculateRentToHMO d"
  unfolding calculateRentToHMO_def
  by (simp_all only: effective_simps ToString.simps parseFloat.simps list.inject char.inject
      simp_thms if_True if_False)

lemma rent_to_serviced_effective:
  "calculateRentToServiced (d(''occupancy_rate'' \<mapsto>
      JNum (effective (field d ''occupancy_rate'') (Fin 60)))) = calculateRentToServiced d"
  "calculateRentToServiced (d(''management_fee'' \<mapsto>
      JNum (effective (field d ''management_fee'') (Fin 20)))) = calculateRentToServiced d"
  unfolding calculateRentToServiced_def
  by (simp_all only: effective_simps ToString.simps parseFloat.simps list.inject char.inject
      simp_thms if_True if_False)

lemma effective_cases:
  "effective v dflt = (if parseFloat (ToString v) = NaN \<or> parseFloat (ToString v) = Fin 0
     then dflt else parseFloat (ToString v))"
  by (simp add: effective_def Let_def)

lemma effective_default:
  "effective JUndefined dflt = dflt"
  "effective (JStr (asc ''abc'')) dflt = dflt"
  "effective (JNum (Fin 0)) dflt = dflt"
  "effective (JStr (asc ''0'')) dflt = dflt"
  "effective (JNum (Fin 25)) dflt = Fin 25"
  "effective (JStr (asc ''25'')) dflt = Fin 25"
  by (simp_all add: effective_def parse_simps)

text \<open>What each calculator computes from its percentage-like fields.\<close>

lemma standard_btl_uses:
  "map_of (calculateStandardBTL d) ''depositAmount''
     = Some (jmul (parseCurrency (field d ''purchase_price''))
         (jdiv (effective (field d ''deposit_percent'') (Fin 20)) (Fin 100)))"
  "\<exists>ma. map_of (calculateStandardBTL d) ''mortgageAmount'' = Some ma
     \<and> map_of (calculateStandardBTL d) ''totalAnnualExpenses''
       = Some (jadd (jadd (jadd (jadd (jadd (jadd (jmul ma
         (jdiv (effective (field d ''mortgage_rate'') (num 58 10)) (Fin 100)))
            (parseCurrency (field d ''council_tax'')))
            (parseCurrency (field d ''repairs_maintenance'')))
            (parseCurrency (field d ''utilities'')))
            (parseCurrency (field d ''water'')))
            (parseCurrency (field d ''broadband_tv'')))
            (parseCurrency (field d ''insurance'')))"
  unfolding calculateStandardBTL_def Let_def
  by (simp_all only: lookup_simps jor_effective)

lemma brr_uses:
  "map_of (calculateBRR d) ''depositAmount''
     = Some (jmul (parseCurrency (field d ''purchase_price''))
         (jdiv (effective (field d ''deposit_percent'') (Fin 20)) (Fin 100)))"
  "map_of (calculateBRR d) ''refinanceAmount''
     = Some (jmul (parseCurrency (field d ''after_refurb_value''))
         (jdiv (effective (field d ''refinance_ltv'') (Fin 75)) (Fin 100)))"
  "\<exists>ra. map_of (calculateBRR d) ''refinanceAmount'' = Some ra
     \<and> map_of (calculateBRR d) ''totalAnnualExpenses''
       = Some (jadd (jadd (jadd (jmul ra
         (jdiv (effective (field d ''mortgage_rate'') (num 58 10)) (Fin 100)))
            (parseCurrency (field d ''council_tax'')))
            (parseCurrency (field d ''repairs_maintenance'')))
            (parseCurrency (field d ''insurance'')))"
  unfolding calculateBRR_def Let_def
  by (simp_all only: lookup_simps jor_effective)

lemma flip_uses:
  "map_of (calculateFlip d) ''holdingPeriod''
     = Some (effective (field d ''holding_period'') (Fin 6))"
  "\<exists>r. map_of (calculateFlip d) ''roi'' = Some r
     \<and> map_of (calculateFlip d) ''monthlyROI''
       = Some (if jgt (effective (field d ''holding_period'') (Fin 6)) (Fin 0)
               then jdiv r (effective (field d ''holding_period'') (Fin 6)) else Fin 0)"
  unfolding calculateFlip_def Let_def
  by (simp_all only: lookup_simps jor_effective)

lemma holiday_let_uses:
  "map_of (calculateHolidayLet d) ''depositAmount''
     = Some (jmul (parseCurrency (field d ''purchase_price''))
         (jdiv (effective (field d ''deposit_percent'') (Fin 20)) (Fin 100)))"
  "map_of (calculateHolidayLet d) ''occupancyRate''
     = Some (effective (field d ''occupancy_rate'') (Fin 50))"
  "map_of (calculateHolidayLet d) ''occupiedWeeks''
     = Some (jmul (Fin 52)
         (jdiv (effective (field d ''occupancy_rate'') (Fin 50)) (Fin 100)))"
  "\<exists>ma ar ow. map_of (calculateHolidayLet d) ''mortgageAmount'' = Some ma
     \<and> map_of (calculateHolidayLet d) ''annualRent'' = Some ar
     \<and> map_of (calculateHolidayLet d) ''occupiedWeeks'' = Some ow
     \<and> map_of (calculateHolidayLet d) ''totalAnnualExpenses''
       = Some (jadd (jadd (jadd (jadd (jadd (jmul ma
         (jdiv (effective (field d ''mortgage_rate'') (num 58 10)) (Fin 100)))
            (jmul ar
         (jdiv (effective (field d ''management_fee'') (Fin 20)) (Fin 100))))
            (jmul (parseCurrency (field d ''cleaning_fee'')) ow))
            (parseCurrency (field d ''council_tax'')))
            (parseCurrency (field d ''utilities'')))
            (parseCurrency (field d ''insurance'')))"
  unfolding calculateHolidayLet_def Let_def
  by (simp_all only: lookup_simps jor_effective) (intro exI conjI, (rule refl)+)

lemma rent_to_hmo_uses:
  "map_of (calculateRentToHMO d) ''numberOfRooms''
     = Some (effective (field d ''number_of_rooms'') (Fin 1))"
  "map_of (calculateRentToHMO d) ''occupiedRooms''
     = Some (Math_floor (jmul (effective (field d ''number_of_rooms'') (Fin 1))
        
         (jdiv (effective (field d ''occupancy_rate'') (Fin 80)) (Fin 100))))"
  unfolding calculateRentToHMO_def Let_def
  by (simp_all only: lookup_simps jor_effective)

lemma rent_to_serviced_uses:
  "map_of (calculateRentToServiced d) ''occupancyRate''
     = Some (effective (field d ''occupancy_rate'') (Fin 60))"
  "map_of (calculateRentToServiced d) ''occupiedDays''
     = Some (jmul (Fin 365)
         (jdiv (effective (field d ''occupancy_rate'') (Fin 60)) (Fin 100)))"
  "\<exists>rp ai od. map_of (calculateRentToServiced d) ''annualRentPaid'' = Some rp
     \<and> map_of (calculateRentToServiced d) ''annualIncome'' = Some ai
     \<and> map_of (calculateRentToServiced d) ''occupiedDays'' = Some od
     \<and> map_of (calculateRentToServiced d) ''totalAnnualExpenses''
       = Some (jadd (jadd (jadd (jadd (jadd rp
            (jmul ai
         (jdiv (effective (field d ''management_fee'') (Fin 20)) (Fin 100))))
            (jmul (parseCurrency (field d ''cleaning_fee'')) od))
            (parseCurrency (field d ''council_tax'')))
            (parseCurrency (field d ''utilities'')))
            (parseCurrency (field d ''insurance'')))"
  unfolding calculateRentToServiced_def Let_def
  by (simp_all only: lookup_simps jor_effective) (intro exI conjI, (rule refl)+)

text \<open>The two examples with a deposit of zero percent.\<close>

lemma zero_deposit_ops:
  "jdiv (Fin 20) (Fin 100) = Fin (3602879701896397 / 18014398509481984)"
  "jmul (Fin 100000) (Fin (3602879701896397 / 18014398509481984)) = Fin 20000"
  "jdiv (Fin 0) (Fin 100) = Fin 0"
  "jmul (Fin 100000) (Fin 0) = Fin 0"
  by (simp_all add: round64_eval)

lemma zero_deposit_amount:
  "map_of (calculateStandardBTL zero_deposit_example) ''depositAmount'' = Some (Fin 20000)"
  "map_of (calculateStandardBTL zero_deposit_string_example) ''depositAmount'' = Some (Fin 20000)"
  by (simp_all add: calculateStandardBTL_def zero_deposit_example_def
      zero_deposit_string_example_def parse_simps zero_deposit_ops Let_def
      del: jadd.simps(1) jmul.simps(1) jdiv.simps(1))

text \<open>
  C3, as stated, fails: a supplied deposit_percent of \<open>0\<close>, or of \<open>"0"\<close>, is not used
  as 0. With a purchase price of 100000 the claim gives a deposit of
  \<open>100000 * (0 / 100) = 0\<close>; the calculator returns 20000, the default 20 percent,
  because \<open>parseFloat(x) || 20\<close> takes the default whenever the parsed Number is falsy.
\<close>

theorem zero_deposit_counterexample:
  "map_of (calculateStandardBTL zero_deposit_example) ''depositAmount''
     \<noteq> Some (jmul (parseCurrency (JNum (Fin 100000)))
                 (jdiv (parseFloat (ToString (JNum (Fin 0)))) (Fin 100)))
   \<and> map_of (calculateStandardBTL zero_deposit_example) ''depositAmount'' = Some (Fin 20000)
   \<and> map_of (calculateStandardBTL zero_deposit_string_example) ''depositAmount''
     \<noteq> Some (jmul (parseCurrency (JNum (Fin 100000)))
                 (jdiv (parseFloat (ToString (JStr (asc ''0'')))) (Fin 100)))
   \<and> map_of (calculateStandardBTL zero_deposit_string_example) ''depositAmount''
     = Some (Fin 20000)"
  by (simp add: zero_deposit_amount parse_simps zero_deposit_ops
      del: jadd.simps(1) jmul.simps(1) jdiv.simps(1))

text \<open>
  C3, amended: for every input mapping and every percentage-like field (deposit_percent,
  mortgage_rate, refinance_ltv, occupancy_rate, management_fee, holding_period, and
  number_of_rooms), each calculator uses the parseFloat of the supplied value when that
  is a Number other than zero, and the default of the field when the value is absent,
  not numeric, or zero. The value so determined is the one that the results are computed
  from: the deposit is the price times that deposit percentage, the mortgage interest,
  the refinance amount, the occupied weeks, days and rooms, the management fee and the
  monthly return of a flip are computed from it, and the returned occupancy rate,
  holding period and number of rooms are that value. Replacing the field by that value
  changes no result. A supplied \<open>0\<close> or \<open>"0"\<close> gives the default.
\<close>

theorem percentage_defaults:
  "map_of (calculateStandardBTL d) ''depositAmount''
     = Some (jmul (parseCurrency (field d ''purchase_price''))
         (jdiv (effective (field d ''deposit_percent'') (Fin 20)) (Fin 100)))
   \<and> (\<exists>ma. map_of (calculateStandardBTL d) ''mortgageAmount'' = Some ma
     \<and> map_of (calculateStandardBTL d) ''totalAnnualExpenses''
       = Some (jadd (jadd (jadd (jadd (jadd (jadd (jmul ma
         (jdiv (effective (field d ''mortgage_rate'') (num 58 10)) (Fin 100)))
            (parseCurrency (field d ''council_tax'')))
            (parseCurrency (field d ''repairs_maintenance'')))
            (parseCurrency (field d ''utilities'')))
            (parseCurrency (field d ''water'')))
            (parseCurrency (field d ''broadband_tv'')))
            (parseCurrency (field d ''insurance''))))
   \<and> map_of (calculateBRR d) ''depositAmount''
     = Some (jmul (parseCurrency (field d ''purchase_price''))
         (jdiv (effective (field d ''deposit_percent'') (Fin 20)) (Fin 100)))
   \<and> map_of (calculateBRR d) ''refinanceAmount''
     = Some (jmul (parseCurrency (field d ''after_refurb_value''))
         (jdiv (effective (field d ''refinance_ltv'') (Fin 75)) (Fin 100)))
   \<and> (\<exists>ra. map_of (calculateBRR d) ''refinanceAmount'' = Some ra
     \<and> map_of (calculateBRR d) ''totalAnnualExpenses''
       = Some (jadd (jadd (jadd (jmul ra
         (jdiv (effective (field d ''mortgage_rate'') (num 58 10)) (Fin 100)))
            (parseCurrency (field d ''council_tax'')))
            (parseCurrency (field d ''repairs_maintenance'')))
            (parseCurrency (field d ''insurance''))))
   \<and> map_of (calculateFlip d) ''holdingPeriod''
     = Some (effective (field d ''holding_period'') (Fin 6))
   \<and> (\<exists>r. map_of (calculateFlip d) ''roi'' = Some r
     \<and> map_of (calculateFlip d) ''monthlyROI''
       = Some (if jgt (effective (field d ''holding_period'') (Fin 6)) (Fin 0)
               then jdiv r (effective (field d ''holding_period'') (Fin 6)) else Fin 0))
   \<and> map_of (calculateHolidayLet d) ''depositAmount''
     = Some (jmul (parseCurrency (field d ''purchase_price''))
         (jdiv (effective (field d ''deposit_percent'') (Fin 20)) (Fin 100)))
   \<and> map_of (calculateHolidayLet d) ''occupancyRate''
     = Some (effective (field d ''occupancy_rate'') (Fin 50))
   \<and> map_of (calculateHolidayLet d) ''occupiedWeeks''
     = Some (jmul (Fin 52)
         (jdiv (effective (field d ''occupancy_rate'') (Fin 50)) (Fin 100)))
   \<and> (\<exists>ma ar ow. map_of (calculateHolidayLet d) ''mortgageAmount'' = Some ma
     \<and> map_of (calculateHolidayLet d) ''annualRent'' = Some ar
     \<and> map_of (calculateHolidayLet d) ''occupiedWeeks'' = Some ow
     \<and> map_of (calculateHolidayLet d) ''totalAnnualExpenses''
       = Some (jadd (jadd (jadd (jadd (jadd (jmul ma
         (jdiv (effective (field d ''mortgage_rate'') (num 58 10)) (Fin 100)))
            (jmul ar
         (jdiv (effective (field d ''management_fee'') (Fin 20)) (Fin 100))))
            (jmul (parseCurrency (field d ''cleaning_fee'')) ow))
            (parseCurrency (field d ''council_tax'')))
            (parseCurrency (field d ''utilities'')))
            (parseCurrency (field d ''insurance''))))
   \<and> map_of (calculateRentToHMO d) ''numberOfRooms''
     = Some (effective (field d ''number_of_rooms'') (Fin 1))
   \<and> map_of (calculateRentToHMO d) ''occupiedRooms''
     = Some (Math_floor (jmul (effective (field d ''number_of_rooms'') (Fin 1))
        
         (jdiv (effective (field d ''occupancy_rate'') (Fin 80)) (Fin 100))))
   \<and> map_of (calculateRentToServiced d) ''occupancyRate''
     = Some (effective (field d ''occupancy_rate'') (Fin 60))
   \<and> map_of (calculateRentToServiced d) ''occupiedDays''
     = Some (jmul (Fin 365)
         (jdiv (effective (field d ''occupancy_rate'') (Fin 60)) (Fin 100)))
   \<and> (\<exists>rp ai od. map_of (calculateRentToServiced d) ''annualRentPaid'' = Some rp
     \<and> map_of (calculateRentToServiced d) ''annualIncome'' = Some ai
     \<and> map_of (calculateRentToServiced d) ''occupiedDays'' = Some od
     \<and> map_of (calculateRentToServiced d) ''totalAnnualExpenses''
       = Some (jadd (jadd (jadd (jadd (jadd rp
            (jmul ai
         (jdiv (effective (field d ''management_fee'') (Fin 20)) (Fin 100))))
            (jmul (parseCurrency (field d ''cleaning_fee'')) od))
            (parseCurrency (field d ''council_tax'')))
            (parseCurrency (field d ''utilities'')))
            (parseCurrency (field d ''insurance''))))
   \<and> calculateStandardBTL (d(''deposit_percent'' \<mapsto>
      JNum (effective (field d ''deposit_percent'') (Fin 20)))) = calculateStandardBTL d
   \<and> calculateStandardBTL (d(''mortgage_rate'' \<mapsto>
      JNum (effective (field d ''mortgage_rate'') (num 58 10)))) = calculateStandardBTL d
   \<and> calculateBRR (d(''deposit_percent'' \<mapsto>
      JNum (effective (field d ''deposit_percent'') (Fin 20)))) = calculateBRR d
   \<and> calculateBRR (d(''mortgage_rate'' \<mapsto>
      JNum (effective (field d ''mortgage_rate'') (num 58 10)))) = calculateBRR d
   \<and> calculateBRR (d(''refinance_ltv'' \<mapsto>
      JNum (effective (field d ''refinance_ltv'') (Fin 75)))) = calculateBRR d
   \<and> calculateFlip (d(''holding_period'' \<mapsto>
      JNum (effective (field d ''holding_period'') (Fin 6)))) = calculateFlip d
   \<and> calculateHolidayLet (d(''deposit_percent'' \<mapsto>
      JNum (effective (field d ''deposit_percent'') (Fin 20)))) = calculateHolidayLet d
   \<and> calculateHolidayLet (d(''mortgage_rate'' \<mapsto>
      JNum (effective (field d ''mortgage_rate'') (num 58 10)))) = calculateHolidayLet d
   \<and> calculateHolidayLet (d(''occupancy_rate'' \<mapsto>
      JNum (effective (field d ''occupancy_rate'') (Fin 50)))) = calculateHolidayLet d
   \<and> calculateHolidayLet (d(''management_fee'' \<mapsto>
      JNum (effective (field d ''management_fee'') (Fin 20)))) = calculateHolidayLet d
   \<and> calculateRentToHMO (d(''number_of_rooms'' \<mapsto>
      JNum (effective (field d ''number_of_rooms'') (Fin 1)))) = calculateRentToHMO d
   \<and> calculateRentToHMO (d(''occupancy_rate'' \<mapsto>
      JNum (effective (field d ''occupancy_rate'') (Fin 80)))) = calculateRentToHMO d
   \<and> calculateRentToServiced (d(''occupancy_rate'' \<mapsto>
      JNum (effective (field d ''occupancy_rate'') (Fin 60)))) = calculateRentToServiced d
   \<and> calculateRentToServiced (d(''management_fee'' \<mapsto>
      JNum (effective (field d ''management_fee'') (Fin 20)))) = calculateRentToServiced d
   \<and> effective v dflt = (if parseFloat (ToString v) = NaN \<or> parseFloat (ToString v) = Fin 0
       then dflt else parseFloat (ToString v))
   \<and> effective JUndefined dflt = dflt
   \<and> effective (JStr (asc ''abc'')) dflt = dflt
   \<and> effective (JNum (Fin 0)) dflt = dflt
   \<and> effective (JStr (asc ''0'')) dflt = dflt
   \<and> effective (JNum (Fin 25)) dflt = Fin 25
   \<and> effective (JStr (asc ''25'')) dflt = Fin 25"
  by (intro conjI standard_btl_uses brr_uses flip_uses holiday_let_uses rent_to_hmo_uses
      rent_to_serviced_uses standard_btl_effective brr_effective flip_effective
      holiday_let_effective rent_to_hmo_effective rent_to_serviced_effective
      effective_cases effective_default)

section \<open>The guard of the return on investment\<close>

lemma roi_standard_btl:
  "\<exists>p b. map_of (calculateStandardBTL d) ''annualProfit'' = Some p
     \<and> map_of (calculateStandardBTL d) ''totalInvestment'' = Some b
     \<and> map_of (calculateStandardBTL d) ''roi'' = Some (roi_of p b)"
  unfolding calculateStandardBTL_def Let_def roi_of_def
  by (simp only: lookup_simps) (intro exI conjI, (rule refl)+)

lemma roi_brr:
  "\<exists>p b. map_of (calculateBRR d) ''annualProfit'' = Some p
     \<and> map_of (calculateBRR d) ''netInvestment'' = Some b
     \<and> map_of (calculateBRR d) ''roi'' = Some (roi_of p b)"
  unfolding calculateBRR_def Let_def roi_of_def
  by (simp only: lookup_simps) (intro exI conjI, (rule refl)+)

lemma roi_flip:
  "\<exists>p b. map_of (calculateFlip d) ''netProfit'' = Some p
     \<and> map_of (calculateFlip d) ''totalInvestment'' = Some b
     \<and> map_of (calculateFlip d) ''roi'' = Some (roi_of p b)"
  unfolding calculateFlip_def Let_def roi_of_def
  by (simp only: lookup_simps) (intro exI conjI, (rule refl)+)

text \<open>In the holiday-let calculator \<open>totalInvestment\<close> is the deposit amount.\<close>

lemma roi_holiday_let:
  "\<exists>p b. map_of (calculateHolidayLet d) ''annualProfit'' = Some p
     \<and> map_of (calculateHolidayLet d) ''depositAmount'' = Some b
     \<and> map_of (calculateHolidayLet d) ''roi'' = Some (roi_of p b)"
  unfolding calculateHolidayLet_def Let_def roi_of_def
  by (simp only: lookup_simps) (intro exI conjI, (rule refl)+)

lemma roi_rent_to_hmo:
  "\<exists>p b. map_of (calculateRentToHMO d) ''annualProfit'' = Some p
     \<and> map_of (calculateRentToHMO d) ''annualRentPaid'' = Some b
     \<and> map_of (calculateRentToHMO d) ''roi'' = Some (roi_of p b)"
  unfolding calculateRentToHMO_def Let_def roi_of_def
  by (simp only: lookup_simps) (intro exI conjI, (rule refl)+)

lemma roi_rent_to_serviced:
  "\<exists>p b. map_of (calculateRentToServiced d) ''annualProfit'' = Some p
     \<and> map_of (calculateRentToServiced d) ''annualRentPaid'' = Some b
     \<and> map_of (calculateRentToServiced d) ''roi'' = Some (roi_of p b)"
  unfolding calculateRentToServiced_def Let_def roi_of_def
  by (simp only: lookup_simps) (intro exI conjI, (rule refl)+)

lemma jle_not_jgt: "jle b (Fin 0) \<Longrightarrow> \<not> jgt b (Fin 0)"
  by (cases b) (auto simp: jle_def jge_def)

lemma roi_of_cases:
  "jle b (Fin 0) \<Longrightarrow> roi_of p b = Fin 0"
  "roi_of p NaN = Fin 0"
  "jgt b (Fin 0) \<Longrightarrow> roi_of p b = jmul (jdiv p b) (Fin 100)"
  using jle_not_jgt [of b] by (simp_all add: roi_of_def)

lemma infinite_price_brr:
  "calculateBRR infinite_price_example =
    [(''purchasePrice'', PInf), (''refurbCost'', Fin 0), (''afterRefurbValue'', Fin 0),
     (''depositAmount'', PInf), (''totalInitialInvestment'', PInf),
     (''refinanceAmount'', Fin 0), (''moneyBack'', NaN), (''netInvestment'', NaN),
     (''annualRent'', Fin 0), (''monthlyRent'', Fin 0), (''rentalYield'', Fin 0),
     (''totalAnnualExpenses'', Fin 0), (''annualProfit'', Fin 0),
     (''monthlyProfit'', Fin 0), (''roi'', Fin 0)]"
  by (simp add: calculateBRR_def infinite_price_example_def parse_simps jsub_def Let_def
      num_def inf_signed_def round64_eval)

text \<open>
  C4, as stated, fails where the basis is NaN, which is neither \<open>\<le> 0\<close> nor \<open>> 0\<close>. With
  the purchase price \<open>Infinity\<close> the buy-refurbish-refinance calculator has a
  \<open>netInvestment\<close> of NaN and a profit of 0; the basis is not \<open>\<le> 0\<close>, so the claim gives
  \<open>(0 / NaN) * 100\<close>, which is NaN, and the calculator returns 0.
\<close>

theorem roi_nan_basis_counterexample:
  "map_of (calculateBRR infinite_price_example) ''netInvestment'' = Some NaN
   \<and> map_of (calculateBRR infinite_price_example) ''annualProfit'' = Some (Fin 0)
   \<and> \<not> jle NaN (Fin 0)
   \<and> map_of (calculateBRR infinite_price_example) ''roi''
       \<noteq> Some (jmul (jdiv (Fin 0) NaN) (Fin 100))"
  by (simp add: infinite_price_brr jle_def jge_def)

text \<open>
  C4, amended: for every input mapping and every calculator, \<open>roi\<close> is
  \<open>(profit / basis) * 100\<close> when its basis (totalInvestment for standard-btl, flip and
  holiday-let, where it is the deposit amount; netInvestment for brr; annualRentPaid for
  rent-to-hmo and rent-to-serviced) is greater than 0, and 0 otherwise: whenever the
  basis is less than or equal to 0, and also when it is NaN. So a zero or negative
  denominator never makes \<open>roi\<close> NaN or infinite.
\<close>

theorem roi_guard:
  "(\<exists>p b. map_of (calculateStandardBTL d) ''annualProfit'' = Some p
      \<and> map_of (calculateStandardBTL d) ''totalInvestment'' = Some b
      \<and> map_of (calculateStandardBTL d) ''roi'' = Some (roi_of p b))
   \<and> (\<exists>p b. map_of (calculateBRR d) ''annualProfit'' = Some p
      \<and> map_of (calculateBRR d) ''netInvestment'' = Some b
      \<and> map_of (calculateBRR d) ''roi'' = Some (roi_of p b))
   \<and> (\<exists>p b. map_of (calculateFlip d) ''netProfit'' = Some p
      \<and> map_of (calculateFlip d) ''totalInvestment'' = Some b
      \<and> map_of (calculateFlip d) ''roi'' = Some (roi_of p b))
   \<and> (\<exists>p b. map_of (calculateHolidayLet d) ''annualProfit'' = Some p
      \<and> map_of (calculateHolidayLet d) ''depositAmount'' = Some b
      \<and> map_of (calculateHolidayLet d) ''roi'' = Some (roi_of p b))
   \<and> (\<exists>p b. map_of (calculateRentToHMO d) ''annualProfit'' = Some p
      \<and> map_of (calculateRentToHMO d) ''annualRentPaid'' = Some b
      \<and> map_of (calculateRentToHMO d) ''roi'' = Some (roi_of p b))
   \<and> (\<exists>p b. map_of (calculateRentToServiced d) ''annualProfit'' = Some p
      \<and> map_of (calculateRentToServiced d) ''annualRentPaid'' = Some b
      \<and> map_of (calculateRentToServiced d) ''roi'' = Some (roi_of p b))
   \<and> (jgt basis (Fin 0) \<longrightarrow> roi_of profit basis = jmul (jdiv profit basis) (Fin 100))
   \<and> (jle basis (Fin 0) \<longrightarrow> roi_of profit basis = Fin 0)
   \<and> roi_of profit NaN = Fin 0"
  by (intro conjI impI roi_standard_btl roi_brr roi_flip roi_holiday_let roi_rent_to_hmo
      roi_rent_to_serviced roi_of_cases(2))
    (erule roi_of_cases(3), erule roi_of_cases(1))

text \<open>
  The guard on the standard buy-to-let example, where the basis is 50000 and the profit
  6585, and on a basis of 0.
\<close>

theorem roi_guard_witness:
  "jgt (Fin 50000) (Fin 0)
   \<and> roi_of (Fin 6585) (Fin 50000) = jmul (jdiv (Fin 6585) (Fin 50000)) (Fin 100)
   \<and> map_of (calculateStandardBTL btl_example) ''roi'' = Some (roi_of (Fin 6585) (Fin 50000))
   \<and> jle (Fin 0) (Fin 0) \<and> roi_of (Fin 6585) (Fin 0) = Fin 0"
proof -
  have a: "jgt (Fin 50000) (Fin 0)" by simp
  have b: "jle (Fin 0) (Fin 0)" by (simp add: jle_def jge_def)
  have c: "map_of (calculateStandardBTL btl_example) ''roi''
      = Some (roi_of (Fin 6585) (Fin 50000))"
    by (simp add: btl_example_result roi_of_def btl_example_ops
        del: jadd.simps(1) jmul.simps(1) jdiv.simps(1))
  show ?thesis
    using roi_guard [of btl_example "Fin 50000" "Fin 6585"]
      roi_guard [of btl_example "Fin 0" "Fin 6585"] a b c
    by simp
qed

section \<open>The calculators on an empty mapping\<close>

text \<open>The roundings that the calculators go through when every field is absent.\<close>

lemma num_58_10: "num 58 10 = Fin (6530219459687219 / 1125899906842624)"
  by (simp add: num_def round64_eval)













section \<open>The bars of the energy-rating chart\<close>

text \<open>
  The Numbers of the chart's literals and the roundings of its geometry, for the chart
  position that createOtherKeyInformationPage passes.
\<close>

lemma chart_nums:
  "num 59528 100 = Fin (2618069127129989 / 4398046511104)"
  "num 46 10 = Fin (2589569785738035 / 562949953421312)"
  "num 20 100 = Fin (3602879701896397 / 18014398509481984)"
  "num 8 100 = Fin (5764607523034235 / 72057594037927936)"
  "num 15 100 = Fin (5404319552844595 / 36028797018963968)"
  "num 32 100 = Fin (5764607523034235 / 18014398509481984)"
  "num 31679999999999995 100000000000000 = Fin (1393301134717747 / 4398046511104)"
  "num 3312 10 = Fin (5826532017910579 / 17592186044416)"
  by (simp_all add: num_def round64_eval)

lemma chart_ops:
  "jmul (Fin (2589569785738035 / 562949953421312)) (Fin 72)
     = Fin (5826532017910579 / 17592186044416)"
  "jmul (Fin (6530219459687219 / 1125899906842624)) (Fin 72)
     = Fin (7346496892148121 / 17592186044416)"
  "jadd (Fin (2618069127129989 / 4398046511104)) (Fin (- (7346496892148121 / 17592186044416)))
     = Fin (3125779616371835 / 17592186044416)"
  "jdiv (Fin (3125779616371835 / 17592186044416)) (Fin 2)
     = Fin (3125779616371835 / 35184372088832)"
  "jmul (Fin (3602879701896397 / 18014398509481984)) (Fin 72)
     = Fin (8106479329266893 / 562949953421312)"
  "jmul (Fin (5764607523034235 / 72057594037927936)) (Fin 72)
     = Fin (3242591731706757 / 562949953421312)"
  "jadd (Fin 0) (Fin 1) = Fin 1"
  "jdiv (Fin 1) (Fin 7) = Fin (2573485501354569 / 18014398509481984)"
  "jmul (Fin (5826532017910579 / 17592186044416)) (Fin (2573485501354569 / 18014398509481984))
     = Fin (6658893734754947 / 140737488355328)"
  "jmul (Fin (5404319552844595 / 36028797018963968)) (Fin 72)
     = Fin (6079859496950169 / 562949953421312)"
  "jadd (Fin (3125779616371835 / 35184372088832)) (Fin (- (6079859496950169 / 562949953421312)))
     = Fin (5491576795624899 / 70368744177664)"
  "jadd (Fin (5491576795624899 / 70368744177664)) (Fin (5826532017910579 / 17592186044416))
     = Fin (1799856554204201 / 4398046511104)"
  "jadd (Fin (1799856554204201 / 4398046511104)) (Fin (8106479329266893 / 562949953421312))
     = Fin (3726376847928197 / 8796093022208)"
  "jmul (Fin (5764607523034235 / 18014398509481984)) (Fin 72)
     = Fin (3242591731706757 / 140737488355328)"
  "jadd (Fin (3726376847928197 / 8796093022208)) (Fin (- (3242591731706757 / 140737488355328)))
     = Fin (7047429729393049 / 17592186044416)"
  "jadd (Fin (7047429729393049 / 17592186044416)) (Fin (- (5491576795624899 / 70368744177664)))
     = Fin (709316941310853 / 2199023255552)"
  "jadd (Fin (709316941310853 / 2199023255552)) (Fin (- (3242591731706757 / 562949953421312)))
     = Fin (1393301134717747 / 4398046511104)"
  "jadd (Fin 1) (Fin 1) = Fin 2"
  "jdiv (Fin 2) (Fin 7) = Fin (2573485501354569 / 9007199254740992)"
  "jmul (Fin (5826532017910579 / 17592186044416)) (Fin (2573485501354569 / 9007199254740992))
     = Fin (6658893734754947 / 70368744177664)"
  "jadd (Fin 2) (Fin 1) = Fin 3"
  "jdiv (Fin 3) (Fin 7) = Fin (7720456504063707 / 18014398509481984)"
  "jmul (Fin (5826532017910579 / 17592186044416)) (Fin (7720456504063707 / 18014398509481984))
     = Fin (2497085150533105 / 17592186044416)"
  "jadd (Fin 3) (Fin 1) = Fin 4"
  "jdiv (Fin 4) (Fin 7) = Fin (2573485501354569 / 4503599627370496)"
  "jmul (Fin (5826532017910579 / 17592186044416)) (Fin (2573485501354569 / 4503599627370496))
     = Fin (6658893734754947 / 35184372088832)"
  "jadd (Fin 4) (Fin 1) = Fin 5"
  "jdiv (Fin 5) (Fin 7) = Fin (6433713753386423 / 9007199254740992)"
  "jmul (Fin (5826532017910579 / 17592186044416)) (Fin (6433713753386423 / 9007199254740992))
     = Fin (2080904292110921 / 8796093022208)"
  "jadd (Fin 5) (Fin 1) = Fin 6"
  "jdiv (Fin 6) (Fin 7) = Fin (7720456504063707 / 9007199254740992)"
  "jmul (Fin (5826532017910579 / 17592186044416)) (Fin (7720456504063707 / 9007199254740992))
     = Fin (2497085150533105 / 8796093022208)"
  "jadd (Fin 6) (Fin 1) = Fin 7"
  "jdiv (Fin 7) (Fin 7) = Fin 1"
  "jmul (Fin (5826532017910579 / 17592186044416)) (Fin 1)
     = Fin (5826532017910579 / 17592186044416)"
  by (simp_all add: round64_eval)

lemmas chart_simps = INCH_def A4_WIDTH_def chartWidth_def chartX_def startX_def colGap_def
  currentColX_def letterPadding_def maxLetterX_def maxBarWidthForLetter_def Math_max_def
  jsub_def num_58_10 chart_nums chart_ops

lemma chart_values:
  "chartWidth = Fin (5826532017910579 / 17592186044416)"
  "maxBarWidthForLetter chartX = Fin (1393301134717747 / 4398046511104)"
  by (simp_all add: chart_simps del: jadd.simps(1) jmul.simps(1) jdiv.simps(1))

lemma cap_formula:
  "maxBarWidthForLetter chartX
     = jsub (jsub (jsub (currentColX chartX) (jmul (num 32 100) INCH)) (startX chartX))
         (jmul (num 8 100) INCH)"
  by (simp add: chart_simps del: jadd.simps(1) jmul.simps(1) jdiv.simps(1))

lemma bar_width_values:
  "barWidth chartX 0 = Fin (6658893734754947 / 140737488355328)"
  "barWidth chartX (Suc 0) = Fin (6658893734754947 / 70368744177664)"
  "barWidth chartX 2 = Fin (2497085150533105 / 17592186044416)"
  "barWidth chartX 3 = Fin (6658893734754947 / 35184372088832)"
  "barWidth chartX 4 = Fin (2080904292110921 / 8796093022208)"
  "barWidth chartX 5 = Fin (2497085150533105 / 8796093022208)"
  "barWidth chartX 6 = Fin (1393301134717747 / 4398046511104)"
  by (simp_all add: barWidth_def maxSteps_def epcBands_def chart_values chart_ops Let_def
      del: jadd.simps(1) jmul.simps(1) jdiv.simps(1))

text \<open>
  C6, as stated, fails for the seventh bar: the bar of G is not drawn with the full chart
  width \<open>chartWidth * 7 / 7\<close>. Every bar is capped at \<open>maxBarWidthForLetter\<close>, so that
  the grade letter fits before the Current column, and the cap is below the chart width.
\<close>

theorem g_bar_counterexample:
  "barWidth chartX 6 \<noteq> jmul chartWidth (jdiv (Fin 7) (Fin 7))"
  by (simp add: bar_width_values chart_values chart_ops
      del: jadd.simps(1) jmul.simps(1) jdiv.simps(1))

text \<open>
  C6, amended: in the energy-rating chart the drawn width of the i-th bar is
  \<open>chartWidth * (i / 7)\<close> for the grades A to F (i from 1 to 6), A being 1/7 of the chart
  width; the bar of G (i = 7) is capped at \<open>maxBarWidthForLetter\<close>, which is
  \<open>((currentColX - 0.32 * INCH) - startX) - 0.08 * INCH\<close>, that is
  316.79999999999995 points, less than the chart width of 331.2 points.
\<close>

theorem bar_widths:
  "barWidth chartX 0 = jmul chartWidth (jdiv (Fin 1) (Fin 7))
   \<and> barWidth chartX 1 = jmul chartWidth (jdiv (Fin 2) (Fin 7))
   \<and> barWidth chartX 2 = jmul chartWidth (jdiv (Fin 3) (Fin 7))
   \<and> barWidth chartX 3 = jmul chartWidth (jdiv (Fin 4) (Fin 7))
   \<and> barWidth chartX 4 = jmul chartWidth (jdiv (Fin 5) (Fin 7))
   \<and> barWidth chartX 5 = jmul chartWidth (jdiv (Fin 6) (Fin 7))
   \<and> barWidth chartX 6 = maxBarWidthForLetter chartX
   \<and> maxBarWidthForLetter chartX
       = jsub (jsub (jsub (currentColX chartX) (jmul (num 32 100) INCH)) (startX chartX))
           (jmul (num 8 100) INCH)
   \<and> maxBarWidthForLetter chartX = num 31679999999999995 100000000000000
   \<and> chartWidth = num 3312 10
   \<and> jgt chartWidth (maxBarWidthForLetter chartX)"
proof -
  have "barWidth chartX 0 = jmul chartWidth (jdiv (Fin 1) (Fin 7))
   \<and> barWidth chartX 1 = jmul chartWidth (jdiv (Fin 2) (Fin 7))
   \<and> barWidth chartX 2 = jmul chartWidth (jdiv (Fin 3) (Fin 7))
   \<and> barWidth chartX 3 = jmul chartWidth (jdiv (Fin 4) (Fin 7))
   \<and> barWidth chartX 4 = jmul chartWidth (jdiv (Fin 5) (Fin 7))
   \<and> barWidth chartX 5 = jmul chartWidth (jdiv (Fin 6) (Fin 7))
   \<and> barWidth chartX 6 = maxBarWidthForLetter chartX
   \<and> maxBarWidthForLetter chartX = num 31679999999999995 100000000000000
   \<and> chartWidth = num 3312 10
   \<and> jgt chartWidth (maxBarWidthForLetter chartX)"
    by (simp add: bar_width_values chart_values chart_ops chart_nums
        del: jadd.simps(1) jmul.simps(1) jdiv.simps(1))
  then show ?thesis using cap_formula by blast
qed

section \<open>The band of a score\<close>

lemma bandIndex_find:
  "bandIndex score k bs = None \<Longrightarrow>
     find (\<lambda>b. jge score (min_b b) \<and> jle score (max_b b)) bs = None"
  "bandIndex score k bs = Some i \<Longrightarrow>
     k \<le> i \<and> i - k < length bs
     \<and> find (\<lambda>b. jge score (min_b b) \<and> jle score (max_b b)) bs = Some (bs ! (i - k))"
proof (induction bs arbitrary: k)
  case Nil
  { case 1 show ?case by simp }
  { case 2 then show ?case by simp }
next
  case (Cons b bs)
  { case 1
    then show ?case using Cons.IH(1) [of "k + 1"] by (simp split: if_splits) }
  { case 2
    show ?case
    proof (cases "jge score (min_b b) \<and> jle score (max_b b)")
      case True
      then show ?thesis using 2 by simp
    next
      case False
      then have "bandIndex score (k + 1) bs = Some i" using 2 by (auto split: if_splits)
      from Cons.IH(2) [OF this] have "k + 1 \<le> i" "i - (k + 1) < length bs"
        "find (\<lambda>b. jge score (min_b b) \<and> jle score (max_b b)) bs = Some (bs ! (i - (k + 1)))"
        by simp_all
      moreover from \<open>k + 1 \<le> i\<close> have "i - k = Suc (i - (k + 1))" by simp
      then have "(b # bs) ! (i - k) = bs ! (i - (k + 1))" by simp
      ultimately show ?thesis using False by auto
    qed }
qed

lemma length_epcBands: "length epcBands = 7"
  by (simp add: epcBands_def)

lemma grade_last: "grade (epcBands ! 6) = ''G''"
  by (simp add: epcBands_def)

lemma band_center:
  "\<exists>i<7. bandCenterY y score = jadd (yPos y i) (jdiv barHeight (Fin 2))
     \<and> grade (epcBands ! i) = letterFor score"
proof (cases "bandIndex score 0 epcBands")
  case None
  have f: "find (\<lambda>b. jge score (min_b b) \<and> jle score (max_b b)) epcBands = None"
    using bandIndex_find(1) [OF None] .
  have "bandCenterY y score = jadd (yPos y 6) (jdiv barHeight (Fin 2))"
    by (simp add: bandCenterY_def None yPos_def length_epcBands)
  moreover have "grade (epcBands ! 6) = letterFor score"
    by (simp add: letterFor_def f grade_last)
  ultimately show ?thesis by (intro exI [of _ 6]) simp
next
  case (Some i)
  from bandIndex_find(2) [OF Some]
  have i: "i < 7"
    and f: "find (\<lambda>b. jge score (min_b b) \<and> jle score (max_b b)) epcBands = Some (epcBands ! i)"
    by (simp_all add: length_epcBands)
  have "bandCenterY y score = jadd (yPos y i) (jdiv barHeight (Fin 2))"
    by (simp add: bandCenterY_def Some yPos_def)
  moreover have "grade (epcBands ! i) = letterFor score"
    by (simp add: letterFor_def f)
  ultimately show ?thesis using i by blast
qed

lemma letterFor_examples:
  "letterFor (Fin 84) = ''B''" "letterFor (Fin 20) = ''G''"
  "letterFor (Fin 101) = ''G''" "letterFor (Fin 0) = ''G''"
  by (simp_all add: letterFor_def epcBands_def jge_def jle_def)


lemma jge_Fin [simp]:
  "jge (Fin a) (Fin b) = (b \<le> a)" "jle (Fin a) (Fin b) = (a \<le> b)"
  "jge PInf (Fin b)" "\<not> jle PInf (Fin b)" "\<not> jge NInf (Fin b)" "jle NInf (Fin b)"
  "\<not> jge NaN c" "\<not> jle NaN c"
  by (auto simp: jge_def jle_def)

lemma letterFor_below:
  "q < 1 \<Longrightarrow> letterFor (Fin q) = ''G''"
  by (simp add: letterFor_def epcBands_def)

lemma letterFor_above:
  "100 < q \<Longrightarrow> letterFor (Fin q) = ''G''"
  by (simp add: letterFor_def epcBands_def)

lemma letterFor_special:
  "letterFor PInf = ''G''" "letterFor NInf = ''G''" "letterFor NaN = ''G''"
  by (simp_all add: letterFor_def epcBands_def)

lemma letterFor_outside:
  "jgt (Fin 1) score \<or> jgt score (Fin 100) \<or> score = NaN \<Longrightarrow> letterFor score = ''G''"
  using letterFor_below letterFor_above letterFor_special by (cases score) auto

lemma parseInt_defaults:
  "parseInt_str (asc ''84'') = Fin 84"
  "parseInt_str (asc ''72'') = Fin 72"
  by (simp_all add: parseInt_str_def parse_simps)

lemma score_defaults:
  "\<not> truthy (field d ''current_rating'') \<Longrightarrow> \<not> truthy (field d ''epc_rating'')
     \<Longrightarrow> currentScore d = Fin 84"
  "parseInt (ToString (vor (vor (field d ''current_rating'') (field d ''epc_rating''))
      (JStr (asc ''84'')))) = NaN \<Longrightarrow> currentScore d = Fin 84"
  "\<not> truthy (field d ''potential_rating'') \<Longrightarrow> potentialScore d = Fin 72"
  "parseInt (ToString (vor (field d ''potential_rating'') (JStr (asc ''72'')))) = NaN
     \<Longrightarrow> potentialScore d = Fin 72"
  by (simp_all add: currentScore_def potentialScore_def vor_def isNaN_def parseInt_defaults
      Let_def)

lemma badge_center:
  "y0 (currentBadge d x y)
     = jsub (bandCenterY y (currentScore d)) (jdiv (badgeHeight (currentBadge d x y)) (Fin 2))"
  "badgeLetter (currentBadge d x y) = letterFor (currentScore d)"
  "y0 (potentialBadge d x y)
     = jsub (bandCenterY y (potentialScore d)) (jdiv (badgeHeight (potentialBadge d x y)) (Fin 2))"
  "badgeLetter (potentialBadge d x y) = letterFor (potentialScore d)"
  by (simp_all add: currentBadge_def potentialBadge_def drawValueBadge_def Let_def)

lemma score_parsed:
  "currentScore d =
     (if parseInt (ToString (vor (vor (field d ''current_rating'') (field d ''epc_rating''))
           (JStr (asc ''84'')))) = NaN then Fin 84
      else parseInt (ToString (vor (vor (field d ''current_rating'') (field d ''epc_rating''))
           (JStr (asc ''84'')))))"
  "potentialScore d =
     (if parseInt (ToString (vor (field d ''potential_rating'') (JStr (asc ''72'')))) = NaN
      then Fin 72
      else parseInt (ToString (vor (field d ''potential_rating'') (JStr (asc ''72'')))))"
  by (simp_all add: currentScore_def potentialScore_def isNaN_def Let_def)

lemma parseInt_numeral_int:
  assumes "n \<noteq> 0" "\<bar>n\<bar> < 10 ^ 21"
  shows "parseInt_numeral (Fin (of_int n)) = Fin (of_int n)"
proof -
  have "1 \<le> \<bar>n\<bar>" using assms(1) by simp
  then have "(1::rat) \<le> \<bar>of_int n\<bar>" by (metis of_int_1_le_iff of_int_abs)
  moreover have "(1::rat) / 10 ^ 6 \<le> 1" by simp
  ultimately have a: "(1::rat) / 10 ^ 6 \<le> \<bar>of_int n\<bar>" by (rule order_trans [rotated])
  have "\<bar>of_int n :: rat\<bar> < of_int (10 ^ 21)"
    using assms(2) by (metis of_int_abs of_int_less_iff)
  then have b: "\<bar>of_int n :: rat\<bar> < 10 ^ 21" by simp
  show ?thesis using a b by (simp add: parseInt_numeral_def)
qed

lemma score_supplied:
  "field d ''current_rating'' = JNum (Fin (of_int n)) \<Longrightarrow> n \<noteq> 0 \<Longrightarrow> \<bar>n\<bar> < 10 ^ 21
     \<Longrightarrow> currentScore d = Fin (of_int n)"
  "field d ''potential_rating'' = JNum (Fin (of_int m)) \<Longrightarrow> m \<noteq> 0 \<Longrightarrow> \<bar>m\<bar> < 10 ^ 21
     \<Longrightarrow> potentialScore d = Fin (of_int m)"
  "field d ''current_rating'' = JNum (Fin (of_int n)) \<Longrightarrow> n \<noteq> 0 \<Longrightarrow> \<bar>n\<bar> < 10 ^ 21
     \<Longrightarrow> badgeLetter (currentBadge d x y) = letterFor (Fin (of_int n))"
  "field d ''potential_rating'' = JNum (Fin (of_int m)) \<Longrightarrow> m \<noteq> 0 \<Longrightarrow> \<bar>m\<bar> < 10 ^ 21
     \<Longrightarrow> badgeLetter (potentialBadge d x y) = letterFor (Fin (of_int m))"
  by (simp_all add: badge_center currentScore_def potentialScore_def vor_def isNaN_def
      jtruthy_def parseInt_numeral_int Let_def)

lemma rated_string_scores:
  "currentScore rated_string_example = Fin 39"
  "potentialScore rated_string_example = Fin 92"
  by (simp_all add: currentScore_def potentialScore_def rated_string_example_def vor_def
      isNaN_def parseInt_str_def parse_simps Let_def)

lemma rated_string_badges:
  "badgeLetter (currentBadge rated_string_example x y) = ''E''"
  "badgeLetter (potentialBadge rated_string_example x y) = ''A''"
  by (simp_all add: badge_center rated_string_scores letterFor_def epcBands_def)

text \<open>
  C5: the score-to-band lookup gives B for 84 and G for 20, and G, without an error, for
  every score outside all bands, such as 101 or a score below 1. Each value badge is
  centred vertically on the band so determined: its centre \<open>bandCenterY\<close> is the middle
  of the bar whose grade is the letter of the score, and its top is half the badge
  height above. The score of a badge is the supplied rating: the current score is what
  parseInt reads in \<open>current_rating\<close>, or in \<open>epc_rating\<close>, which is read in its place,
  and the potential score what it reads in \<open>potential_rating\<close>; a rating supplied as a
  whole Number is the score itself. The current score is 84 when \<open>current_rating\<close> and
  \<open>epc_rating\<close> are both absent, or when the value read is not numeric; the potential
  score is 72 when \<open>potential_rating\<close> is absent or not numeric.
\<close>

theorem epc_band_lookup:
  "letterFor (Fin 84) = ''B'' \<and> letterFor (Fin 20) = ''G'' \<and> letterFor (Fin 101) = ''G''
   \<and> (jgt (Fin 1) score \<or> jgt score (Fin 100) \<or> score = NaN \<longrightarrow> letterFor score = ''G'')
   \<and> (\<exists>i<7. bandCenterY y score = jadd (yPos y i) (jdiv barHeight (Fin 2))
          \<and> grade (epcBands ! i) = letterFor score)
   \<and> y0 (currentBadge d x y)
       = jsub (bandCenterY y (currentScore d)) (jdiv (badgeHeight (currentBadge d x y)) (Fin 2))
   \<and> badgeLetter (currentBadge d x y) = letterFor (currentScore d)
   \<and> y0 (potentialBadge d x y)
       = jsub (bandCenterY y (potentialScore d))
           (jdiv (badgeHeight (potentialBadge d x y)) (Fin 2))
   \<and> badgeLetter (potentialBadge d x y) = letterFor (potentialScore d)
   \<and> (\<not> truthy (field d ''current_rating'') \<and> \<not> truthy (field d ''epc_rating'')
        \<longrightarrow> currentScore d = Fin 84)
   \<and> (parseInt (ToString (vor (vor (field d ''current_rating'') (field d ''epc_rating''))
          (JStr (asc ''84'')))) = NaN \<longrightarrow> currentScore d = Fin 84)
   \<and> (\<not> truthy (field d ''potential_rating'') \<longrightarrow> potentialScore d = Fin 72)
   \<and> (parseInt (ToString (vor (field d ''potential_rating'') (JStr (asc ''72'')))) = NaN
        \<longrightarrow> potentialScore d = Fin 72)
   \<and> currentScore d =
       (if parseInt (ToString (vor (vor (field d ''current_rating'') (field d ''epc_rating''))
             (JStr (asc ''84'')))) = NaN then Fin 84
        else parseInt (ToString (vor (vor (field d ''current_rating'') (field d ''epc_rating''))
             (JStr (asc ''84'')))))
   \<and> potentialScore d =
       (if parseInt (ToString (vor (field d ''potential_rating'') (JStr (asc ''72'')))) = NaN
        then Fin 72
        else parseInt (ToString (vor (field d ''potential_rating'') (JStr (asc ''72'')))))
   \<and> (field d ''current_rating'' = JNum (Fin (of_int n)) \<and> n \<noteq> 0 \<and> \<bar>n\<bar> < 10 ^ 21
        \<longrightarrow> currentScore d = Fin (of_int n)
          \<and> badgeLetter (currentBadge d x y) = letterFor (Fin (of_int n)))
   \<and> (field d ''potential_rating'' = JNum (Fin (of_int m)) \<and> m \<noteq> 0 \<and> \<bar>m\<bar> < 10 ^ 21
        \<longrightarrow> potentialScore d = Fin (of_int m)
          \<and> badgeLetter (potentialBadge d x y) = letterFor (Fin (of_int m)))
   \<and> currentScore rated_string_example = Fin 39
   \<and> badgeLetter (currentBadge rated_string_example x y) = ''E''
   \<and> potentialScore rated_string_example = Fin 92
   \<and> badgeLetter (potentialBadge rated_string_example x y) = ''A''"
  by (intro conjI impI; (elim conjE)?;
      (rule letterFor_examples(1-3) band_center badge_center score_parsed rated_string_scores
         rated_string_badges
       | (rule score_defaults(1) score_supplied; assumption)
       | erule letterFor_outside score_defaults))

text \<open>
  The lookup on a score of 0, the defaults on an empty mapping and on ratings that are
  not numbers, and the scores 20 and 85 supplied as Numbers, with the badges on G and B.
\<close>

theorem epc_band_lookup_witness:
  "jgt (Fin 1) (Fin 0) \<and> letterFor (Fin 0) = ''G''
   \<and> \<not> truthy (field Map.empty ''current_rating'') \<and> \<not> truthy (field Map.empty ''epc_rating'')
   \<and> currentScore Map.empty = Fin 84
   \<and> \<not> truthy (field Map.empty ''potential_rating'') \<and> potentialScore Map.empty = Fin 72
   \<and> parseInt (ToString (vor (vor (field bad_rating_example ''current_rating'')
          (field bad_rating_example ''epc_rating'')) (JStr (asc ''84'')))) = NaN
   \<and> currentScore bad_rating_example = Fin 84
   \<and> parseInt (ToString (vor (field bad_rating_example ''potential_rating'')
          (JStr (asc ''72'')))) = NaN
   \<and> potentialScore bad_rating_example = Fin 72
   \<and> field rated_example ''current_rating'' = JNum (Fin (of_int 20))
   \<and> currentScore rated_example = Fin 20
   \<and> badgeLetter (currentBadge rated_example chartX (Fin 0)) = ''G''
   \<and> field rated_example ''potential_rating'' = JNum (Fin (of_int 85))
   \<and> potentialScore rated_example = Fin 85
   \<and> badgeLetter (potentialBadge rated_example chartX (Fin 0)) = ''B''"
proof -
  have a: "jgt (Fin 1) (Fin 0)" by simp
  have b: "\<not> truthy (field Map.empty ''current_rating'')"
    "\<not> truthy (field Map.empty ''epc_rating'')"
    "\<not> truthy (field Map.empty ''potential_rating'')"
    by (simp_all add: field_def)
  have c: "parseInt (ToString (vor (vor (field bad_rating_example ''current_rating'')
          (field bad_rating_example ''epc_rating'')) (JStr (asc ''84'')))) = NaN"
    "parseInt (ToString (vor (field bad_rating_example ''potential_rating'')
          (JStr (asc ''72'')))) = NaN"
    by (simp_all add: bad_rating_example_def vor_def parseInt_str_def parse_simps)
  have r: "field rated_example ''current_rating'' = JNum (Fin (of_int 20))"
    "field rated_example ''potential_rating'' = JNum (Fin (of_int 85))"
    by (simp_all add: rated_example_def field_def)
  have l: "letterFor (Fin 20) = ''G''" "letterFor (Fin 85) = ''B''"
    by (simp_all add: letterFor_def epcBands_def)
  have n: "(20::int) \<noteq> 0" "\<bar>20::int\<bar> < 10 ^ 21" "(85::int) \<noteq> 0" "\<bar>85::int\<bar> < 10 ^ 21"
    by simp_all
  show ?thesis
    using epc_band_lookup [where score = "Fin 0" and d = Map.empty]
      epc_band_lookup [where score = "Fin 0" and d = bad_rating_example]
      epc_band_lookup [where d = rated_example and n = 20 and m = 85 and x = chartX
          and y = "Fin 0"]
      a b c r l n
    by (simp add: vor_def jtruthy_def parseInt_numeral_def)
qed

section \<open>The page sequence\<close>

lemma pages_addPage: "pages (addPage d) = pages d @ [[]]"
  by (simp add: pages_def addPage_def)

lemma addPage_eq: "addPage d = \<lparr>finished = pages d, current = []\<rparr>"
  by (simp add: pages_def addPage_def)

lemma drawOp_eq:
  "drawOp x \<lparr>finished = fs, current = c\<rparr> = \<lparr>finished = fs, current = c @ [x]\<rparr>"
  by (simp add: drawOp_def)

lemma pages_eq: "pages \<lparr>finished = fs, current = c\<rparr> = fs @ [c]"
  by (simp add: pages_def)

text \<open>
  The pages that a loop adds do not depend on the pages finished before it: a loop run
  on a document is the loop run on its current page alone, after the finished pages.
\<close>

lemma investmentSections_prefix:
  "pages (investmentSections ts k \<lparr>finished = fs, current = c\<rparr>)
     = fs @ pages (investmentSections ts k \<lparr>finished = [], current = c\<rparr>)"
proof (induction ts arbitrary: k fs c)
  case Nil
  show ?case by (simp add: pages_eq)
next
  case (Cons t ts)
  show ?case
  proof (cases "0 < k")
    case True
    have "pages (investmentSections (t # ts) k \<lparr>finished = fs, current = c\<rparr>)
        = pages (investmentSections ts (k + 1) \<lparr>finished = fs @ [c], current = [Header, Section t]\<rparr>)"
      using True by (simp add: addPage_eq drawOp_eq pages_eq)
    also have "\<dots> = (fs @ [c])
        @ pages (investmentSections ts (k + 1) \<lparr>finished = [], current = [Header, Section t]\<rparr>)"
      by (rule Cons.IH)
    also have "\<dots> = fs
        @ pages (investmentSections ts (k + 1) \<lparr>finished = [c], current = [Header, Section t]\<rparr>)"
      using Cons.IH [of "k + 1" "[c]" "[Header, Section t]"] by simp
    also have "\<dots> = fs @ pages (investmentSections (t # ts) k \<lparr>finished = [], current = c\<rparr>)"
      using True by (simp add: addPage_eq drawOp_eq pages_eq)
    finally show ?thesis .
  next
    case False
    have "pages (investmentSections (t # ts) k \<lparr>finished = fs, current = c\<rparr>)
        = pages (investmentSections ts (k + 1) \<lparr>finished = fs, current = c @ [Header, Section t]\<rparr>)"
      using False by (simp add: drawOp_eq)
    also have "\<dots> = fs
        @ pages (investmentSections ts (k + 1) \<lparr>finished = [], current = c @ [Header, Section t]\<rparr>)"
      by (rule Cons.IH)
    also have "\<dots> = fs @ pages (investmentSections (t # ts) k \<lparr>finished = [], current = c\<rparr>)"
      using False by (simp add: drawOp_eq)
    finally show ?thesis .
  qed
qed

lemma investmentSections_later:
  "0 < k \<Longrightarrow> pages (investmentSections ts k \<lparr>finished = fs, current = c\<rparr>)
     = fs @ [c] @ map (\<lambda>t. [Header, Section t]) ts"
proof (induction ts arbitrary: k fs c)
  case Nil
  show ?case by (simp add: pages_eq)
next
  case (Cons t ts)
  have "pages (investmentSections (t # ts) k \<lparr>finished = fs, current = c\<rparr>)
      = pages (investmentSections ts (k + 1) \<lparr>finished = fs @ [c], current = [Header, Section t]\<rparr>)"
    using Cons.prems by (simp add: addPage_eq drawOp_eq pages_eq)
  also have "\<dots> = (fs @ [c]) @ [[Header, Section t]] @ map (\<lambda>t. [Header, Section t]) ts"
    by (rule Cons.IH) simp
  finally show ?case by simp
qed

lemma investment_fresh:
  "selectedCalculators data \<noteq> [] \<Longrightarrow>
     pages (createInvestmentPage data newDocument)
       = map (\<lambda>t. [Header, Section t]) (selectedCalculators data)"
  "selectedCalculators data = [] \<Longrightarrow> pages (createInvestmentPage data newDocument) = [[]]"
proof -
  show "pages (createInvestmentPage data newDocument)
       = map (\<lambda>t. [Header, Section t]) (selectedCalculators data)"
    if ne: "selectedCalculators data \<noteq> []"
  proof -
    obtain t ts where s: "selectedCalculators data = t # ts"
      using ne by (cases "selectedCalculators data") auto
    have "pages (investmentSections (t # ts) 0 \<lparr>finished = [], current = []\<rparr>)
        = pages (investmentSections ts 1 \<lparr>finished = [], current = [Header, Section t]\<rparr>)"
      by (simp add: drawOp_eq)
    also have "\<dots> = [] @ [[Header, Section t]] @ map (\<lambda>t. [Header, Section t]) ts"
      by (rule investmentSections_later) simp
    finally show ?thesis by (simp add: createInvestmentPage_def newDocument_def s)
  qed
  show "pages (createInvestmentPage data newDocument) = [[]]" if "selectedCalculators data = []"
    using that by (simp add: createInvestmentPage_def newDocument_def pages_eq)
qed

lemma selected_array:
  "selected_calculators data = SelArray ts \<Longrightarrow> ts \<noteq> [] \<Longrightarrow> selectedCalculators data = ts"
  by (simp add: selectedCalculators_def)

lemma floorPlanLoop_prefix:
  "pages (floorPlanLoop fps rest \<lparr>finished = fs, current = c\<rparr>)
     = fs @ pages (floorPlanLoop fps rest \<lparr>finished = [], current = c\<rparr>)"
proof (induction rest arbitrary: fs c)
  case Nil
  show ?case by (simp add: pages_eq)
next
  case (Cons p rest)
  let ?c = "c @ [Header, Title ''Floor Plans'', AddImage (Some p) (jadd contentY (Fin 30)) Contain]"
  show ?case
  proof (cases "p \<noteq> last fps")
    case True
    have "pages (floorPlanLoop fps (p # rest) \<lparr>finished = fs, current = c\<rparr>)
        = pages (floorPlanLoop fps rest \<lparr>finished = fs @ [?c], current = []\<rparr>)"
      using True by (simp add: addPage_eq drawOp_eq pages_eq)
    also have "\<dots> = (fs @ [?c]) @ pages (floorPlanLoop fps rest \<lparr>finished = [], current = []\<rparr>)"
      by (rule Cons.IH)
    also have "\<dots> = fs @ pages (floorPlanLoop fps rest \<lparr>finished = [?c], current = []\<rparr>)"
      using Cons.IH [of "[?c]" "[]"] by simp
    also have "\<dots> = fs @ pages (floorPlanLoop fps (p # rest) \<lparr>finished = [], current = c\<rparr>)"
      using True by (simp add: addPage_eq drawOp_eq pages_eq)
    finally show ?thesis .
  next
    case False
    have "pages (floorPlanLoop fps (p # rest) \<lparr>finished = fs, current = c\<rparr>)
        = pages (floorPlanLoop fps rest \<lparr>finished = fs, current = ?c\<rparr>)"
      using False by (simp add: drawOp_eq)
    also have "\<dots> = fs @ pages (floorPlanLoop fps rest \<lparr>finished = [], current = ?c\<rparr>)"
      by (rule Cons.IH)
    also have "\<dots> = fs @ pages (floorPlanLoop fps (p # rest) \<lparr>finished = [], current = c\<rparr>)"
      using False by (simp add: drawOp_eq)
    finally show ?thesis .
  qed
qed

lemma galleryLoop_prefix:
  "pages (galleryLoop th rest y \<lparr>finished = fs, current = c\<rparr>)
     = fs @ pages (galleryLoop th rest y \<lparr>finished = [], current = c\<rparr>)"
proof (induction rest arbitrary: fs c y)
  case Nil
  show ?case by (simp add: pages_eq)
next
  case (Cons p rest)
  let ?over = "jgt (jadd (jadd y galleryHeight) gallerySpacing) (jsub A4_HEIGHT MARGIN)"
  show ?case
  proof (cases ?over)
    case True
    let ?y = "jadd contentY (jadd th (Fin 28))"
    let ?c = "[Header, Title ''Property Images'', AddImage (Some p) ?y Cover]"
    let ?n = "jadd ?y (jadd galleryHeight gallerySpacing)"
    have "pages (galleryLoop th (p # rest) y \<lparr>finished = fs, current = c\<rparr>)
        = pages (galleryLoop th rest ?n \<lparr>finished = fs @ [c], current = ?c\<rparr>)"
      using True by (simp add: addPage_eq drawOp_eq pages_eq Let_def)
    also have "\<dots> = (fs @ [c]) @ pages (galleryLoop th rest ?n \<lparr>finished = [], current = ?c\<rparr>)"
      by (rule Cons.IH)
    also have "\<dots> = fs @ pages (galleryLoop th rest ?n \<lparr>finished = [c], current = ?c\<rparr>)"
      using Cons.IH [of ?n "[c]" ?c] by simp
    also have "\<dots> = fs @ pages (galleryLoop th (p # rest) y \<lparr>finished = [], current = c\<rparr>)"
      using True by (simp add: addPage_eq drawOp_eq pages_eq Let_def)
    finally show ?thesis .
  next
    case False
    let ?c = "c @ [AddImage (Some p) y Cover]"
    let ?n = "jadd y (jadd galleryHeight gallerySpacing)"
    have "pages (galleryLoop th (p # rest) y \<lparr>finished = fs, current = c\<rparr>)
        = pages (galleryLoop th rest ?n \<lparr>finished = fs, current = ?c\<rparr>)"
      using False by (simp add: drawOp_eq Let_def)
    also have "\<dots> = fs @ pages (galleryLoop th rest ?n \<lparr>finished = [], current = ?c\<rparr>)"
      by (rule Cons.IH)
    also have "\<dots> = fs @ pages (galleryLoop th (p # rest) y \<lparr>finished = [], current = c\<rparr>)"
      using False by (simp add: drawOp_eq Let_def)
    finally show ?thesis .
  qed
qed

lemma section_prefix:
  "pages (createInvestmentPage data \<lparr>finished = fs, current = []\<rparr>)
     = fs @ pages (createInvestmentPage data newDocument)"
  "pages (floorPlanSection imgs \<lparr>finished = fs, current = []\<rparr>)
     = fs @ pages (floorPlanSection imgs newDocument)"
  "pages (gallerySection th imgs \<lparr>finished = fs, current = []\<rparr>)
     = fs @ pages (gallerySection th imgs newDocument)"
proof -
  show "pages (createInvestmentPage data \<lparr>finished = fs, current = []\<rparr>)
     = fs @ pages (createInvestmentPage data newDocument)"
    using investmentSections_prefix [of _ 0 fs "[]"]
    by (simp add: createInvestmentPage_def newDocument_def)
  show "pages (floorPlanSection imgs \<lparr>finished = fs, current = []\<rparr>)
     = fs @ pages (floorPlanSection imgs newDocument)"
    using floorPlanLoop_prefix [of _ _ fs "[]"]
    by (simp add: floorPlanSection_def newDocument_def drawOp_eq pages_eq Let_def)
  show "pages (gallerySection th imgs \<lparr>finished = fs, current = []\<rparr>)
     = fs @ pages (gallerySection th imgs newDocument)"
    using galleryLoop_prefix [of th _ _ fs "[Header, Title ''Property Images'']"]
    by (simp add: gallerySection_def newDocument_def drawOp_eq pages_eq)
qed

lemma cover_pages: "pages (drawOp CoverPage newDocument) = [[CoverPage]]"
  by (simp add: newDocument_def drawOp_eq pages_eq)

text \<open>The pages of a generated document, part by part.\<close>

lemma generatePDF_pages:
  assumes "validOutputPath outputPath"
  shows "\<exists>d. generatePDF data imgs outputPath th = Inr d
     \<and> pages d = [[CoverPage]] @ pages (createInvestmentPage data newDocument)
         @ [[KeyInformation], [OtherKeyInformation]]
         @ pages (floorPlanSection imgs newDocument)
         @ pages (gallerySection th imgs newDocument) @ [[CityMap]]"
  using assms
  by (simp add: generatePDF_def Let_def addPage_eq cover_pages section_prefix drawOp_eq
      pages_eq)

lemma floor_fresh_empty:
  "floor_plans imgs = None \<or> floor_plans imgs = Some [] \<Longrightarrow>
     pages (floorPlanSection imgs newDocument)
       = [[Header, Title ''Floor Plans'', AddImage None (jadd contentY (Fin 30)) Contain]]"
  by (auto simp: floorPlanSection_def newDocument_def drawOp_eq pages_eq)

lemma gallery_fresh_empty:
  "galleryImages imgs = [] \<Longrightarrow> pages (gallerySection th imgs newDocument) = [[]]"
  by (simp add: gallerySection_def newDocument_def pages_eq)

text \<open>
  What a part draws, collected over all pages by a function \<open>g\<close>: a loop adds what it
  draws to what was drawn before.
\<close>

lemma collect_addPage:
  "concat (map g (concat (pages (addPage d)))) = concat (map g (concat (pages d)))"
  by (simp add: pages_def addPage_def)

lemma collect_drawOp:
  "concat (map g (concat (pages (drawOp x d)))) = concat (map g (concat (pages d))) @ g x"
  by (simp add: pages_def drawOp_def)

lemma investmentSections_collect:
  assumes "g Header = []" and "\<And>t. g (Section t) = []"
  shows "concat (map g (concat (pages (investmentSections ts k d))))
     = concat (map g (concat (pages d)))"
  by (induction ts arbitrary: k d) (simp_all add: collect_addPage collect_drawOp assms)

lemma floorPlanLoop_collect:
  assumes "g Header = []" and "g (Title ''Floor Plans'') = []"
    and "\<And>p y. g (AddImage p y Contain) = []"
  shows "concat (map g (concat (pages (floorPlanLoop fps rest d))))
     = concat (map g (concat (pages d)))"
  by (induction rest arbitrary: d) (simp_all add: collect_addPage collect_drawOp assms Let_def)

lemma floorPlanSection_collect:
  assumes "g Header = []" and "g (Title ''Floor Plans'') = []"
    and "\<And>p y. g (AddImage p y Contain) = []"
  shows "concat (map g (concat (pages (floorPlanSection imgs d))))
     = concat (map g (concat (pages d)))"
  by (simp add: floorPlanSection_def Let_def floorPlanLoop_collect collect_drawOp assms)

lemma galleryLoop_paths:
  "galleryPaths (galleryLoop th rest y d) = galleryPaths d @ map Some rest"
  unfolding galleryPaths_def
  by (induction rest arbitrary: y d) (simp_all add: collect_addPage collect_drawOp Let_def)

lemma gallerySection_paths:
  "galleryPaths (gallerySection th imgs d) = galleryPaths d @ map Some (galleryImages imgs)"
  using galleryLoop_paths [of th "galleryImages imgs"]
  by (simp add: gallerySection_def galleryPaths_def collect_drawOp)

lemma generatePDF_paths:
  assumes "validOutputPath outputPath"
  shows "\<exists>d. generatePDF data imgs outputPath th = Inr d
     \<and> galleryPaths d = map Some (galleryImages imgs)"
proof -
  have g: "galleryPaths (addPage d) = galleryPaths d"
    "galleryPaths (drawOp CoverPage d) = galleryPaths d"
    "galleryPaths (drawOp KeyInformation d) = galleryPaths d"
    "galleryPaths (drawOp OtherKeyInformation d) = galleryPaths d"
    "galleryPaths (drawOp CityMap d) = galleryPaths d"
    "galleryPaths (createInvestmentPage data d) = galleryPaths d"
    "galleryPaths (floorPlanSection imgs d) = galleryPaths d" for d
    unfolding galleryPaths_def createInvestmentPage_def
    by (simp_all add: collect_addPage collect_drawOp investmentSections_collect
        floorPlanSection_collect)
  have n: "galleryPaths newDocument = []"
    by (simp add: galleryPaths_def newDocument_def pages_def)
  show ?thesis
    using assms by (simp add: generatePDF_def Let_def g gallerySection_paths n)
qed

lemma filter_collect: "filter P xs = concat (map (\<lambda>x. if P x then [x] else []) xs)"
  by (induction xs) simp_all

lemma generatePDF_no_gallery:
  assumes "validOutputPath outputPath" and "galleryImages imgs = []"
  shows "\<exists>d. generatePDF data imgs outputPath th = Inr d
     \<and> filter isGallery (concat (pages d)) = []"
proof -
  let ?g = "\<lambda>x. if isGallery x then [x] else []"
  have g: "concat (map ?g (concat (pages (addPage d)))) = concat (map ?g (concat (pages d)))"
    "concat (map ?g (concat (pages (drawOp CoverPage d)))) = concat (map ?g (concat (pages d)))"
    "concat (map ?g (concat (pages (drawOp KeyInformation d))))
       = concat (map ?g (concat (pages d)))"
    "concat (map ?g (concat (pages (drawOp OtherKeyInformation d))))
       = concat (map ?g (concat (pages d)))"
    "concat (map ?g (concat (pages (drawOp CityMap d)))) = concat (map ?g (concat (pages d)))"
    "concat (map ?g (concat (pages (createInvestmentPage data d))))
       = concat (map ?g (concat (pages d)))"
    "concat (map ?g (concat (pages (floorPlanSection imgs d))))
       = concat (map ?g (concat (pages d)))" for d
    unfolding createInvestmentPage_def
    by (simp_all add: collect_addPage collect_drawOp investmentSections_collect
        floorPlanSection_collect)
  have s: "gallerySection th imgs d = d" for d
    using assms(2) by (simp add: gallerySection_def)
  have n: "concat (map ?g (concat (pages newDocument))) = []"
    by (simp add: newDocument_def pages_def)
  let ?d = "drawOp CityMap (addPage (gallerySection th imgs (addPage (floorPlanSection imgs
    (addPage (drawOp OtherKeyInformation (addPage (drawOp KeyInformation
    (addPage (createInvestmentPage data (addPage (drawOp CoverPage newDocument))))))))))))"
  have r: "generatePDF data imgs outputPath th = Inr ?d"
    using assms(1) by (simp add: generatePDF_def Let_def)
  have "filter isGallery (concat (pages ?d)) = []"
    by (simp only: filter_collect g s n)
  with r show ?thesis by blast
qed

lemma galleryImages_cases:
  "property imgs = Some ps \<Longrightarrow> galleryImages imgs = ps"
  "property imgs = None \<Longrightarrow> cover imgs = Some cs \<Longrightarrow> galleryImages imgs = cs"
  "property imgs = None \<Longrightarrow> cover imgs = None \<Longrightarrow> galleryImages imgs = []"
  by (simp_all add: galleryImages_def)

lemma valid_out_pdf: "validOutputPath out_pdf"
  by (simp add: validOutputPath_def out_pdf_def trim_def asc_def isWhiteSpace_def)

text \<open>
  C10: in generatePDF the gallery draws the images of \<open>images.property\<close> when that list
  is present, also when it is empty, and the images of \<open>images.cover\<close> only when
  \<open>images.property\<close> is absent. With \<open>property: []\<close> no gallery title and no gallery
  image is drawn, whatever the cover list holds.
\<close>

theorem gallery_source:
  "(validOutputPath outputPath \<longrightarrow>
     (\<exists>d. generatePDF data imgs outputPath th = Inr d
        \<and> galleryPaths d = map Some (galleryImages imgs)
        \<and> (property imgs = Some [] \<longrightarrow> filter isGallery (concat (pages d)) = [])))
   \<and> (property imgs = Some ps \<longrightarrow> galleryImages imgs = ps)
   \<and> (property imgs = None \<and> cover imgs = Some cs \<longrightarrow> galleryImages imgs = cs)
   \<and> (property imgs = None \<and> cover imgs = None \<longrightarrow> galleryImages imgs = [])"
proof (intro conjI impI)
  assume v: "validOutputPath outputPath"
  obtain d where d: "generatePDF data imgs outputPath th = Inr d"
    "galleryPaths d = map Some (galleryImages imgs)"
    using generatePDF_paths [OF v] by blast
  have "filter isGallery (concat (pages d)) = []" if "property imgs = Some []"
    using generatePDF_no_gallery [OF v, of imgs data th] that d(1)
    by (simp add: galleryImages_def)
  then show "\<exists>d. generatePDF data imgs outputPath th = Inr d
        \<and> galleryPaths d = map Some (galleryImages imgs)
        \<and> (property imgs = Some [] \<longrightarrow> filter isGallery (concat (pages d)) = [])"
    using d by blast
qed (simp_all add: galleryImages_def)

text \<open>
  The gallery with \<open>property: []\<close> and one cover image, where nothing is drawn, and with
  \<open>property\<close> absent, where the cover image is drawn.
\<close>

theorem gallery_source_witness:
  "validOutputPath out_pdf
   \<and> property empty_property = Some [] \<and> cover empty_property = Some [''cover.jpg'']
   \<and> (\<exists>d. generatePDF two_calculators empty_property out_pdf (Fin 28) = Inr d
        \<and> galleryPaths d = [] \<and> filter isGallery (concat (pages d)) = [])
   \<and> property absent_property = None \<and> cover absent_property = Some [''cover.jpg'']
   \<and> (\<exists>d. generatePDF two_calculators absent_property out_pdf (Fin 28) = Inr d
        \<and> galleryPaths d = [Some ''cover.jpg''])"
proof -
  have e: "property empty_property = Some []" "cover empty_property = Some [''cover.jpg'']"
    by (simp_all add: empty_property_def)
  have a: "property absent_property = None" "cover absent_property = Some [''cover.jpg'']"
    by (simp_all add: absent_property_def)
  show ?thesis
    using gallery_source [of out_pdf two_calculators empty_property "Fin 28" "[]"]
      gallery_source [of out_pdf two_calculators absent_property "Fin 28" _ "[''cover.jpg'']"]
      valid_out_pdf e a
    by (simp add: galleryImages_def)
qed

text \<open>
  The page sequence in general: a valid output path gives a document whose pages are the
  cover, the pages of the investment part, the two key-information pages, the pages of
  the floor plans, the pages of the gallery, and the city map. The investment part is
  one page per selected calculator, each with its header and its section; without floor
  plans there is the one placeholder page.
\<close>

lemma page_sequence:
  assumes "validOutputPath outputPath"
  shows "\<exists>d. generatePDF data imgs outputPath th = Inr d
     \<and> pages d = [[CoverPage]] @ pages (createInvestmentPage data newDocument)
         @ [[KeyInformation], [OtherKeyInformation]]
         @ pages (floorPlanSection imgs newDocument)
         @ pages (gallerySection th imgs newDocument) @ [[CityMap]]
     \<and> (selectedCalculators data \<noteq> [] \<longrightarrow>
          pages (createInvestmentPage data newDocument)
            = map (\<lambda>t. [Header, Section t]) (selectedCalculators data))
     \<and> (floor_plans imgs = None \<or> floor_plans imgs = Some [] \<longrightarrow>
          pages (floorPlanSection imgs newDocument)
            = [[Header, Title ''Floor Plans'', AddImage None (jadd contentY (Fin 30)) Contain]])
     \<and> (galleryImages imgs = [] \<longrightarrow> pages (gallerySection th imgs newDocument) = [[]])"
  using generatePDF_pages [OF assms, of data imgs th] investment_fresh(1) [of data]
    floor_fresh_empty [of imgs] gallery_fresh_empty [of imgs th]
  by blast

lemma two_calculators_selected:
  "selectedCalculators two_calculators = [JStr (asc ''brr''), JStr (asc ''flip'')]"
  by (simp add: selected_array two_calculators_def)

text \<open>
  C7, on the code: with two calculators selected the investment part is two pages, and
  with no floor plan there is one placeholder page, as the claim says. With an empty
  gallery no gallery operation is drawn, but the page that generatePDF opens for the
  gallery is still there: \<open>doc.addPage()\<close> follows the gallery block also when the block
  is skipped, and the document has an empty page between the floor plans and the city
  map, where the claim has none.
\<close>

theorem empty_gallery_page:
  "\<exists>d. generatePDF two_calculators empty_property out_pdf (Fin 28) = Inr d
     \<and> pages d =
       [[CoverPage],
        [Header, Section (JStr (asc ''brr''))],
        [Header, Section (JStr (asc ''flip''))],
        [KeyInformation],
        [OtherKeyInformation],
        [Header, Title ''Floor Plans'', AddImage None (jadd contentY (Fin 30)) Contain],
        [],
        [CityMap]]"
proof -
  have f: "floor_plans empty_property = None \<or> floor_plans empty_property = Some []"
    by (simp add: empty_property_def)
  have g: "galleryImages empty_property = []"
    by (simp add: galleryImages_def empty_property_def)
  show ?thesis
    using page_sequence [OF valid_out_pdf, of two_calculators empty_property "Fin 28"] f g
    by (auto simp: two_calculators_selected)
qed

end
